theory Spec2Isabelle
  imports Complex_Main "HOL-Library.Sublist"
begin

section \<open>The page as the in-page scripts see it\<close>

text \<open>
  The two scripts of \<^verbatim>\<open>click_using_selector.py\<close> walk the live DOM with
  \<^verbatim>\<open>querySelector\<close>, \<^verbatim>\<open>querySelectorAll('*')\<close>, \<^verbatim>\<open>el.shadowRoot\<close>,
  \<^verbatim>\<open>el.tagName\<close> and \<^verbatim>\<open>el.contentDocument || el.contentWindow.document\<close>.
  An element carries what these read. A search root (a document or a shadow root) is the
  list of its top-level elements; text nodes play no part. An element may have a shadow
  tree attached, in open or in closed mode, and \<open>content\<close> is the browsing context of an
  \<^verbatim>\<open>iframe\<close>.
\<close>

type_synonym selector = string

datatype 'd shadow_tree = NoShadow | OpenShadow 'd | ClosedShadow 'd

datatype 'd browsing_context = NoBrowsingContext | SameOrigin 'd | CrossOrigin

datatype node = Element (tagName: string) (attributes: "(string \<times> string) list")
  (children: "node list") (shadow: "node list shadow_tree")
  (content: "node list browsing_context")

type_synonym dom = "node list"

text \<open>\<^verbatim>\<open>el.shadowRoot\<close>: the shadow root of an element when its mode is open, \<^verbatim>\<open>null\<close> when
  the element has none or its mode is closed.\<close>

fun shadowRoot :: "node \<Rightarrow> dom option" where
  "shadowRoot (Element t a cs (OpenShadow sr) fc) = Some sr"
| "shadowRoot (Element t a cs (ClosedShadow sr) fc) = None"
| "shadowRoot (Element t a cs NoShadow fc) = None"

text \<open>An element found by a script, with its \<^verbatim>\<open>parentElement\<close> (\<^verbatim>\<open>null\<close> at the top of
  a document or of a shadow root).\<close>

type_synonym located = "node \<times> node option"

text \<open>The meaning of a (properly formed) selector is a parameter: which elements it matches.\<close>

type_synonym matcher = "selector \<Rightarrow> node \<Rightarrow> bool"

datatype js_error = SecurityError | TypeError

text \<open>\<^verbatim>\<open>String.prototype.toLowerCase\<close> on the ASCII letters of a tag name.\<close>

definition lower_char :: "char \<Rightarrow> char" where
  "lower_char c =
     (let n = (of_char c :: nat) in if 65 \<le> n \<and> n \<le> 90 then char_of (n + 32) else c)"

definition toLowerCase :: "string \<Rightarrow> string" where
  "toLowerCase s = map lower_char s"

text \<open>\<^verbatim>\<open>parent.querySelector(selector)\<close>: the first matching element among the descendants
  of the root, in tree order; it does not look into shadow roots or frames.\<close>

fun querySelector :: "matcher \<Rightarrow> selector \<Rightarrow> node option \<Rightarrow> dom \<Rightarrow> located option" where
  "querySelector m s par [] = None"
| "querySelector m s par (Element t a cs sh fc # ns) =
     (if m s (Element t a cs sh fc) then Some (Element t a cs sh fc, par)
      else case querySelector m s (Some (Element t a cs sh fc)) cs of
             Some e \<Rightarrow> Some e
           | None \<Rightarrow> querySelector m s par ns)"

text \<open>\<^verbatim>\<open>parent.querySelectorAll('*')\<close>: every descendant element, in tree order.\<close>

fun querySelectorAll_star :: "dom \<Rightarrow> node list" where
  "querySelectorAll_star [] = []"
| "querySelectorAll_star (Element t a cs sh fc # ns) =
     Element t a cs sh fc # querySelectorAll_star cs @ querySelectorAll_star ns"

text \<open>\<^verbatim>\<open>el.contentDocument || el.contentWindow.document\<close>: the document of a same-origin
  frame; for a cross-origin frame \<^verbatim>\<open>contentDocument\<close> is \<^verbatim>\<open>null\<close> and reading
  \<^verbatim>\<open>contentWindow.document\<close> throws; without a browsing context both are \<^verbatim>\<open>null\<close> and
  the property read throws.\<close>

fun iframe_document :: "dom browsing_context \<Rightarrow> js_error + dom option" where
  "iframe_document (SameOrigin d) = Inr (Some d)"
| "iframe_document CrossOrigin = Inl SecurityError"
| "iframe_document NoBrowsingContext = Inl TypeError"

text \<open>The \<^verbatim>\<open>for (const el of elements)\<close> loop: the body returns an element (the function
  returns it), nothing (next element), or throws.\<close>

fun for_of :: "('a \<Rightarrow> 'e + 'b option) \<Rightarrow> 'a list \<Rightarrow> 'e + 'b option" where
  "for_of body [] = Inr None"
| "for_of body (x # xs) =
     (case body x of
        Inl err \<Rightarrow> Inl err
      | Inr (Some r) \<Rightarrow> Inr (Some r)
      | Inr None \<Rightarrow> for_of body xs)"

lemma for_of_cong [fundef_cong]:
  "xs = ys \<Longrightarrow> (\<And>x. x \<in> set ys \<Longrightarrow> f x = g x) \<Longrightarrow> for_of f xs = for_of g ys"
  by (induction ys arbitrary: xs) (auto split: sum.splits option.splits)

lemma size_querySelectorAll_star:
  "el \<in> set (querySelectorAll_star ns) \<Longrightarrow> size el \<le> size_list size ns"
  by (induction ns rule: querySelectorAll_star.induct) auto

lemma size_shadowRoot: "shadowRoot el = Some sr \<Longrightarrow> size_list size sr < size el"
  by (cases el rule: shadowRoot.cases) auto

lemma size_content: "content el = SameOrigin d \<Longrightarrow> size_list size d < size el"
  by (cases el) auto

text \<open>\<^verbatim>\<open>findElementInShadowDOMAndIframes(parent, selector)\<close>, the helper both scripts define
  (lines 173-209 and 248-286, the same text), and \<open>visit_element\<close>, the body of its
  \<^verbatim>\<open>for (const el of elements)\<close> loop. The \<^verbatim>\<open>try\<close> block holds only the read of the frame's
  document; its \<^verbatim>\<open>catch\<close> continues with the next element.\<close>

function findElementInShadowDOMAndIframes ::
    "matcher \<Rightarrow> dom \<Rightarrow> selector \<Rightarrow> js_error + located option"
  and visit_element :: "matcher \<Rightarrow> selector \<Rightarrow> node \<Rightarrow> js_error + located option" where
  "findElementInShadowDOMAndIframes m parent s =
     (case querySelector m s None parent of
        Some element \<Rightarrow> Inr (Some element)
      | None \<Rightarrow> for_of (visit_element m s) (querySelectorAll_star parent))"
| "visit_element m s el =
     (case (case shadowRoot el of
              Some sr \<Rightarrow> findElementInShadowDOMAndIframes m sr s
            | None \<Rightarrow> Inr None) of
        Inl err \<Rightarrow> Inl err
      | Inr (Some element) \<Rightarrow> Inr (Some element)
      | Inr None \<Rightarrow>
          if toLowerCase (tagName el) = ''iframe'' then
            (case iframe_document (content el) of
               Inl err \<Rightarrow> Inr None
             | Inr None \<Rightarrow> Inr None
             | Inr (Some iframeDocument) \<Rightarrow>
                 findElementInShadowDOMAndIframes m iframeDocument s)
          else Inr None)"
  by pat_completeness auto
termination
  apply (relation "measure (\<lambda>x. case x of
            Inl (m, parent, s) \<Rightarrow> 2 * size_list size parent + 1
          | Inr (m, s, el) \<Rightarrow> 2 * size el)")
  subgoal by simp
  subgoal for m parent s el
    using size_querySelectorAll_star [of el parent] by simp
  subgoal for m s el sr
    using size_shadowRoot [of el sr] by simp
  subgoal for m s el b ba d
    using size_content [of el d] by (cases "content el") auto
  done

declare findElementInShadowDOMAndIframes.simps [simp del] visit_element.simps [simp del]

section \<open>The Python side: exceptions, external calls, state\<close>

text \<open>
  Python's \<^verbatim>\<open>except Exception\<close> handlers see the exceptions below; \<open>str_exc\<close> is \<^verbatim>\<open>str(e)\<close>,
  the text an f-string prints for \<^verbatim>\<open>{e}\<close>. \<open>py_str\<close> is how an f-string prints a value that
  may be \<^verbatim>\<open>None\<close>. The calls of the logger and \<^verbatim>\<open>traceback.print_exc\<close> decide nothing and
  are left out. The delay \<^verbatim>\<open>wait_before_execution\<close>, a float, is a real number here: it is
  only compared with zero and handed to \<^verbatim>\<open>asyncio.sleep\<close>.
\<close>

datatype py_exception = ValueError string | PlaywrightError string

fun str_exc :: "py_exception \<Rightarrow> string" where
  "str_exc (ValueError t) = t"
| "str_exc (PlaywrightError t) = t"

fun py_str :: "string option \<Rightarrow> string" where
  "py_str None = ''None''"
| "py_str (Some t) = t"

datatype script = PresenceScript | ClickScript

text \<open>The calls the module makes on its collaborators (the browser library, the session
  manager, the mutation observer, telemetry), in the order made; the log of a run is the
  list of them.\<close>

datatype call =
    AddEvent string string
  | GetCurrentPage
  | TakeScreenshots string
  | HighlightElement selector
  | Subscribe
  | Unsubscribe
  | Sleep real
  | NotifyUser "string option"
  | QuerySelectorPage selector
  | QuerySelectorFrame nat selector
  | ScrollIntoViewIfNeeded
  | WaitForElementState
  | EvaluateTagName
  | GetElementOuterHtml
  | GetAttributeValue
  | EvaluateHandleParent
  | SelectOption "string option"
  | PageEvaluate script selector

text \<open>A page as the browser library holds it: the main document and the documents of
  \<^verbatim>\<open>page.frames\<close>.\<close>

record page =
  document :: dom
  frames :: "dom list"

text \<open>
  What the module does not decide is a parameter of the run:
  \<^item> \<open>matches\<close>: the meaning of selectors for the in-page \<^verbatim>\<open>querySelector\<close>;
  \<^item> \<open>pw_query\<close>: what the browser library's \<^verbatim>\<open>query_selector\<close> resolves a selector to in
    a frame's document (its selector engine is not part of this repository);
  \<^item> \<open>fault\<close>: which calls on the browser library raise, and with what error text;
  \<^item> \<open>outer_html\<close>: the markup \<^verbatim>\<open>get_element_outer_html\<close> returns (\<^verbatim>\<open>hercules.utils.dom_helper\<close>);
  \<^item> \<open>option_text\<close>: the \<^verbatim>\<open>text\<close> property of an option element;
  \<^item> \<open>click_reaction\<close>: the page after the click handlers of an element ran, and the
    clicked element as it is then;
  \<^item> \<open>select_reaction\<close>: the page after an option was selected in its parent;
  \<^item> \<open>mutations_during_click\<close>, \<open>mutations_during_settle\<close>: the change descriptions the
    mutation observer delivers while \<^verbatim>\<open>do_click\<close> is awaited and while the settle sleep
    is awaited, in order of delivery.
\<close>

record world =
  matches :: matcher
  pw_query :: "dom \<Rightarrow> selector \<Rightarrow> node option"
  fault :: "call \<Rightarrow> string option"
  outer_html :: "node \<Rightarrow> string"
  option_text :: "node \<Rightarrow> string"
  click_reaction :: "page \<Rightarrow> node \<Rightarrow> page \<times> node"
  select_reaction :: "page \<Rightarrow> node \<Rightarrow> page"
  mutations_during_click :: "string list"
  mutations_during_settle :: "string list"

record state =
  live :: page
  calls :: "call list"

type_synonym 'a action = "state \<Rightarrow> (py_exception + 'a) \<times> state"

definition ret :: "'a \<Rightarrow> 'a action" where
  "ret x = (\<lambda>st. (Inr x, st))"

definition raise :: "py_exception \<Rightarrow> 'a action" where
  "raise e = (\<lambda>st. (Inl e, st))"

definition bind :: "'a action \<Rightarrow> ('a \<Rightarrow> 'b action) \<Rightarrow> 'b action" where
  "bind act f = (\<lambda>st. case act st of (Inl e, st') \<Rightarrow> (Inl e, st') | (Inr x, st') \<Rightarrow> f x st')"

text \<open>\<^verbatim>\<open>try: act  except Exception as e: handler(e)\<close>\<close>

definition try_except :: "'a action \<Rightarrow> (py_exception \<Rightarrow> 'a action) \<Rightarrow> 'a action" where
  "try_except act handler =
     (\<lambda>st. case act st of (Inl e, st') \<Rightarrow> handler e st' | (Inr x, st') \<Rightarrow> (Inr x, st'))"

text \<open>A call on a collaborator: logged, and raising when the run says so.\<close>

definition external :: "world \<Rightarrow> call \<Rightarrow> unit action" where
  "external w c =
     (\<lambda>st. (case fault w c of Some t \<Rightarrow> Inl (PlaywrightError t) | None \<Rightarrow> Inr (),
            st\<lparr>calls := calls st @ [c]\<rparr>))"

definition page_query_selector :: "world \<Rightarrow> selector \<Rightarrow> node option action" where
  "page_query_selector w selector =
     bind (external w (QuerySelectorPage selector))
       (\<lambda>_ st. (Inr (pw_query w (document (live st)) selector), st))"

definition frame_query_selector :: "world \<Rightarrow> nat \<Rightarrow> dom \<Rightarrow> selector \<Rightarrow> node option action" where
  "frame_query_selector w i frame selector =
     bind (external w (QuerySelectorFrame i selector))
       (\<lambda>_. ret (pw_query w frame selector))"

text \<open>A call that is only logged: \<^verbatim>\<open>asyncio.sleep\<close>, and the collaborators the module does
  not guard against (screenshots, highlighting, user notification, telemetry, the
  mutation observer's registry).\<close>

definition logged :: "call \<Rightarrow> unit action" where
  "logged c = (\<lambda>st. (Inr (), st\<lparr>calls := calls st @ [c]\<rparr>))"

section \<open>\<^verbatim>\<open>perform_javascript_click\<close>\<close>

definition getAttribute :: "node \<Rightarrow> string \<Rightarrow> string option" where
  "getAttribute el name = map_of (attributes el) name"

text \<open>\<^verbatim>\<open>element.target = "_self"\<close>\<close>

fun set_target_self :: "node \<Rightarrow> node" where
  "set_target_self (Element t a cs sh fc) =
     Element t ((''target'', ''_self'') # filter (\<lambda>(k, v). k \<noteq> ''target'') a) cs sh fc"

fun js_error_name :: "js_error \<Rightarrow> string" where
  "js_error_name SecurityError = ''SecurityError''"
| "js_error_name TypeError = ''TypeError''"

definition executed_click_message :: "selector \<Rightarrow> string" where
  \<open>executed_click_message selector =
     ''Executed JavaScript Click on element with selector: '' @ selector\<close>

definition menu_notice :: string where
  \<open>menu_notice = ''. Very important: As a consequence, a menu has appeared where you may need to make further selection. Very important: Get all_fields DOM to complete the action.''\<close>

text \<open>The script of lines 246-321, run against the page: its return value or the error it
  throws, and the page afterwards. Setting \<^verbatim>\<open>parent.value\<close> on a \<^verbatim>\<open>null\<close> parent throws.\<close>

definition js_click_script :: "world \<Rightarrow> page \<Rightarrow> selector \<Rightarrow> (js_error + string) \<times> page" where
  \<open>js_click_script w pg selector =
     (case findElementInShadowDOMAndIframes (matches w) (document pg) selector of
        Inl err \<Rightarrow> (Inl err, pg)
      | Inr None \<Rightarrow>
          (Inr (''perform_javascript_click: Element with selector '' @ selector @ '' not found''), pg)
      | Inr (Some (element, parentElement)) \<Rightarrow>
          if toLowerCase (tagName element) = ''option'' then
            (case parentElement of
               None \<Rightarrow> (Inl TypeError, pg)
             | Some parent \<Rightarrow>
                 (Inr (''Select menu option: '' @ option_text w element @ '' selected''),
                  select_reaction w pg element))
          else
            (let element1 = (if toLowerCase (tagName element) = ''a''
                             then set_target_self element else element);
                 ariaExpandedBeforeClick = getAttribute element1 ''aria-expanded'';
                 (pg', element2) = click_reaction w pg element1;
                 ariaExpandedAfterClick = getAttribute element2 ''aria-expanded''
             in if ariaExpandedBeforeClick = Some ''false'' \<and> ariaExpandedAfterClick = Some ''true''
                then (Inr (executed_click_message selector @ menu_notice), pg')
                else (Inr (executed_click_message selector), pg')))\<close>

text \<open>\<^verbatim>\<open>page.evaluate(js_code, selector)\<close> inside \<^verbatim>\<open>try\<close>; the handler logs and falls off the
  end of the function, so the caller gets \<^verbatim>\<open>None\<close>.\<close>

definition perform_javascript_click :: "world \<Rightarrow> selector \<Rightarrow> string option action" where
  "perform_javascript_click w selector =
     try_except
       (bind (external w (PageEvaluate ClickScript selector))
          (\<lambda>_ st. case js_click_script w (live st) selector of
                     (Inl err, pg') \<Rightarrow> (Inl (PlaywrightError (js_error_name err)), st\<lparr>live := pg'\<rparr>)
                   | (Inr result, pg') \<Rightarrow> (Inr (Some result), st\<lparr>live := pg'\<rparr>)))
       (\<lambda>e. ret None)"

section \<open>\<^verbatim>\<open>is_element_present\<close>\<close>

definition is_element_present :: "world \<Rightarrow> selector \<Rightarrow> bool action" where
  "is_element_present w selector =
     bind (page_query_selector w selector)
       (\<lambda>element.
          case element of
            Some _ \<Rightarrow> ret True
          | None \<Rightarrow>
              bind (external w (PageEvaluate PresenceScript selector))
                (\<lambda>_ st. case findElementInShadowDOMAndIframes (matches w) (document (live st)) selector of
                           Inl err \<Rightarrow> (Inl (PlaywrightError (js_error_name err)), st)
                         | Inr found \<Rightarrow> (Inr (found \<noteq> None), st)))"

section \<open>\<^verbatim>\<open>do_click\<close>\<close>

record outcome =
  summary_message :: "string option"
  detailed_message :: string

fun frames_loop :: "world \<Rightarrow> selector \<Rightarrow> nat \<Rightarrow> dom list \<Rightarrow> node option action" where
  "frames_loop w selector i [] = ret None"
| "frames_loop w selector i (frame # rest) =
     bind (frame_query_selector w i frame selector)
       (\<lambda>element. case element of
                     Some e \<Rightarrow> ret (Some e)
                   | None \<Rightarrow> frames_loop w selector (Suc i) rest)"

definition find_element_within_iframes :: "world \<Rightarrow> selector \<Rightarrow> node option action" where
  "find_element_within_iframes w selector =
     bind (page_query_selector w selector)
       (\<lambda>element. case element of
                     Some e \<Rightarrow> ret (Some e)
                   | None \<Rightarrow> (\<lambda>st. frames_loop w selector 0 (frames (live st)) st))"

definition invalid_selector_message :: "selector \<Rightarrow> string" where
  \<open>invalid_selector_message selector =
     ''Unable to click element with selector: "'' @ selector @
     ''" since the selector is invalid. Proceed by retrieving DOM again.''\<close>

definition failure_outcome :: "selector \<Rightarrow> py_exception \<Rightarrow> outcome" where
  \<open>failure_outcome selector e =
     \<lparr>summary_message = Some (invalid_selector_message selector),
      detailed_message = invalid_selector_message selector @ ''. Error: '' @ str_exc e\<rparr>\<close>

definition select_outcome :: "string option \<Rightarrow> string \<Rightarrow> outcome" where
  \<open>select_outcome element_value element_outer_html =
     \<lparr>summary_message = Some (''Select menu option "'' @ py_str element_value @ ''" selected''),
      detailed_message = ''Select menu option "'' @ py_str element_value @
        ''" selected. The select element's outer HTML is: '' @ element_outer_html @ ''.''\<rparr>\<close>

definition click_outcome :: "string option \<Rightarrow> string \<Rightarrow> outcome" where
  \<open>click_outcome msg element_outer_html =
     \<lparr>summary_message = msg,
      detailed_message = py_str msg @ '' The clicked element's outer HTML is: '' @
        element_outer_html @ ''.''\<rparr>\<close>

definition not_found_error :: "selector \<Rightarrow> py_exception" where
  \<open>not_found_error selector = ValueError (''Element with selector: "'' @ selector @ ''" not found'')\<close>

text \<open>The body of the outer \<^verbatim>\<open>try\<close> of \<^verbatim>\<open>do_click\<close> (lines 106-144).\<close>

definition do_click_body :: "world \<Rightarrow> selector \<Rightarrow> outcome action" where
  "do_click_body w selector =
     bind (find_element_within_iframes w selector)
       (\<lambda>found.
          case found of
            None \<Rightarrow> raise (not_found_error selector)
          | Some element \<Rightarrow>
              bind (try_except (external w ScrollIntoViewIfNeeded) (\<lambda>e. ret ()))
                (\<lambda>_. bind (try_except (external w WaitForElementState) (\<lambda>e. ret ()))
                (\<lambda>_. bind (external w EvaluateTagName)
                (\<lambda>_. bind (external w GetElementOuterHtml)
                (\<lambda>_. if toLowerCase (tagName element) = ''option'' then
                        bind (external w GetAttributeValue)
                          (\<lambda>_. bind (external w EvaluateHandleParent)
                          (\<lambda>_. bind (external w (SelectOption (getAttribute element ''value'')))
                          (\<lambda>_ st. (Inr (select_outcome (getAttribute element ''value'')
                                           (outer_html w element)),
                                    st\<lparr>live := select_reaction w (live st) element\<rparr>))))
                      else
                        bind (perform_javascript_click w selector)
                          (\<lambda>msg. ret (click_outcome msg (outer_html w element))))))))"

definition do_click :: "world \<Rightarrow> selector \<Rightarrow> real \<Rightarrow> outcome action" where
  "do_click w selector wait_before_execution =
     bind (if wait_before_execution > 0 then logged (Sleep wait_before_execution) else ret ())
       (\<lambda>_. try_except (do_click_body w selector)
               (\<lambda>e. ret (failure_outcome selector e)))"

section \<open>\<^verbatim>\<open>click\<close>\<close>

text \<open>
  Modelled from the spec: \<^verbatim>\<open>hercules.utils.dom_mutation_observer\<close> (\<^verbatim>\<open>subscribe\<close>,
  \<^verbatim>\<open>unsubscribe\<close>) is not among the sources. By sections 4.4 and 6 of the specification it is
  a registry of callbacks, and a subscribed callback is called with the change description
  of every notification delivered until it is unsubscribed. The callback of \<^verbatim>\<open>click\<close>,
  \<^verbatim>\<open>detect_dom_changes\<close>, stores the description in \<^verbatim>\<open>dom_changes_detected\<close>.
\<close>

definition detect_dom_changes :: "string option \<Rightarrow> string list \<Rightarrow> string option" where
  "detect_dom_changes dom_changes_detected deliveries =
     foldl (\<lambda>_ changes. Some changes) dom_changes_detected deliveries"

text \<open>Python's truth value of \<^verbatim>\<open>dom_changes_detected\<close>: \<^verbatim>\<open>None\<close> and the empty string are false.\<close>

fun truthy :: "string option \<Rightarrow> bool" where
  "truthy None = False"
| "truthy (Some t) = (t \<noteq> [])"

definition changes_message :: "string option \<Rightarrow> string \<Rightarrow> selector \<Rightarrow> string" where
  \<open>changes_message summary changes selector =
     ''Success: '' @ py_str summary @ ''.'' @ [CHR 0x0A] @
     '' As a consequence of this action, new elements have appeared in view: '' @ changes @
     ''. This means that the action to click '' @ selector @
     '' is not yet executed and needs further interaction. Get all_fields DOM to complete the interaction.''\<close>

definition no_page_error :: py_exception where
  \<open>no_page_error = ValueError ''No active page found. OpenURL command opens a new page.''\<close>

text \<open>\<^verbatim>\<open>click\<close>, given what \<^verbatim>\<open>get_current_page()\<close> returns: the value returned or the
  exception raised, and the log of the calls made.\<close>

definition click ::
  "world \<Rightarrow> page option \<Rightarrow> selector \<Rightarrow> real \<Rightarrow> (py_exception + string) \<times> call list" where
  \<open>click w current_page selector wait_before_execution =
     (case current_page of
        None \<Rightarrow> (Inl no_page_error, [AddEvent ''interaction'' ''click'', GetCurrentPage])
      | Some pg \<Rightarrow>
          (case do_click w selector wait_before_execution
                  \<lparr>live = pg,
                   calls = [AddEvent ''interaction'' ''click'', GetCurrentPage,
                            TakeScreenshots ''click_start'', HighlightElement selector, Subscribe]\<rparr> of
             (Inl e, st) \<Rightarrow> (Inl e, calls st)
           | (Inr result, st) \<Rightarrow>
               (let dom_changes_detected =
                      detect_dom_changes None
                        (mutations_during_click w @ mutations_during_settle w);
                    log = calls st @ [Sleep (1 / 2), Unsubscribe, TakeScreenshots ''click_end'',
                                      NotifyUser (summary_message result)]
                in (Inr (if truthy dom_changes_detected
                         then changes_message (summary_message result)
                                (py_str dom_changes_detected) selector
                         else detailed_message result),
                    log))))\<close>

section \<open>Telemetry: \<^verbatim>\<open>add_event\<close>\<close>

datatype EventType = INTERACTION | STEP | TOOL | ASSERT | RUN | DETECTION | CONFIG

fun event_type_value :: "EventType \<Rightarrow> string" where
  "event_type_value INTERACTION = ''interaction''"
| "event_type_value STEP = ''step''"
| "event_type_value TOOL = ''tool''"
| "event_type_value ASSERT = ''assert''"
| "event_type_value RUN = ''run''"
| "event_type_value DETECTION = ''detection''"
| "event_type_value CONFIG = ''config''"

record 'a EventData =
  detail :: "string option"
  additional_data :: "(string \<rightharpoonup> 'a) option"

record 'a event =
  timestamp :: string
  data :: "'a EventData"

record 'a bucket =
  events :: "'a event list"
  event_count :: int

record 'a event_collector =
  installation_id :: string
  buckets :: "string \<rightharpoonup> 'a bucket"
  start_time :: string

text \<open>\<^verbatim>\<open>add_event\<close> (lines 105-123), given the module's \<^verbatim>\<open>ENABLE_TELEMETRY\<close> flag and the
  text of \<^verbatim>\<open>datetime.now().isoformat()\<close>. The two lookups that follow the insertion of a
  missing bucket find the key; their \<open>None\<close> branches (a \<^verbatim>\<open>KeyError\<close> in Python) are never
  taken.\<close>

definition add_event ::
  "bool \<Rightarrow> string \<Rightarrow> EventType \<Rightarrow> 'a EventData \<Rightarrow> 'a event_collector \<Rightarrow> 'a event_collector" where
  "add_event ENABLE_TELEMETRY now event_type event_data event_collector =
     (if \<not> ENABLE_TELEMETRY then event_collector
      else
        let event = \<lparr>timestamp = now, data = event_data\<rparr>;
            bs = (if buckets event_collector (event_type_value event_type) = None
                  then (buckets event_collector)
                         (event_type_value event_type \<mapsto> \<lparr>events = [], event_count = 0\<rparr>)
                  else buckets event_collector);
            bs1 = (case bs (event_type_value event_type) of
                     None \<Rightarrow> bs
                   | Some b \<Rightarrow> bs(event_type_value event_type \<mapsto> b\<lparr>events := events b @ [event]\<rparr>));
            bs2 = (case bs1 (event_type_value event_type) of
                     None \<Rightarrow> bs1
                   | Some b \<Rightarrow> bs1(event_type_value event_type \<mapsto> b\<lparr>event_count := event_count b + 1\<rparr>))
        in event_collector\<lparr>buckets := bs2\<rparr>)"

text \<open>The collector as the module creates it (lines 98-102), and a sequence of calls, each
  with the time it is made at.\<close>

definition initial_event_collector :: "string \<Rightarrow> string \<Rightarrow> 'a event_collector" where
  "initial_event_collector iid started =
     \<lparr>installation_id = iid, buckets = Map.empty, start_time = started\<rparr>"

definition add_events ::
  "bool \<Rightarrow> (string \<times> EventType \<times> 'a EventData) list \<Rightarrow> 'a event_collector \<Rightarrow> 'a event_collector" where
  "add_events ENABLE_TELEMETRY cs event_collector =
     foldl (\<lambda>c (now, event_type, event_data). add_event ENABLE_TELEMETRY now event_type event_data c)
       event_collector cs"

definition bucket_or_new :: "'a event_collector \<Rightarrow> string \<Rightarrow> 'a bucket" where
  "bucket_or_new c k = (case buckets c k of None \<Rightarrow> \<lparr>events = [], event_count = 0\<rparr> | Some b \<Rightarrow> b)"

section \<open>Notions the properties are stated with\<close>







text \<open>The first of a list of calls that raises in a run, with its error text.\<close>

fun first_fault :: "world \<Rightarrow> call list \<Rightarrow> string option" where
  "first_fault w [] = None"
| "first_fault w (c # cs) = (case fault w c of Some t \<Rightarrow> Some t | None \<Rightarrow> first_fault w cs)"

text \<open>The calls of a list that are made when each is made only if the ones before it
  returned: all up to and including the first that raises.\<close>

fun performed :: "world \<Rightarrow> call list \<Rightarrow> call list" where
  "performed w [] = []"
| "performed w (c # cs) = c # (case fault w c of Some t \<Rightarrow> [] | None \<Rightarrow> performed w cs)"

text \<open>An action only adds calls to the log.\<close>

definition appends_calls :: "'a action \<Rightarrow> bool" where
  "appends_calls act = (\<forall>st. \<exists>cs. calls (snd (act st)) = calls st @ cs)"

text \<open>A cross-origin frame element (one that exposes no shadow root).\<close>

definition cross_origin_iframe :: "node \<Rightarrow> bool" where
  "cross_origin_iframe el =
     (toLowerCase (tagName el) = ''iframe'' \<and> content el = CrossOrigin \<and> shadowRoot el = None)"

text \<open>What \<^verbatim>\<open>find_element_within_iframes\<close>, \<^verbatim>\<open>perform_javascript_click\<close> and \<^verbatim>\<open>do_click\<close>
  return, as functions of the run and the page alone; the proofs show that the functions
  above compute them.\<close>

fun resolve_frames :: "world \<Rightarrow> selector \<Rightarrow> nat \<Rightarrow> dom list \<Rightarrow> py_exception + node option" where
  "resolve_frames w selector i [] = Inr None"
| "resolve_frames w selector i (frame # rest) =
     (case fault w (QuerySelectorFrame i selector) of
        Some t \<Rightarrow> Inl (PlaywrightError t)
      | None \<Rightarrow>
          (case pw_query w frame selector of
             Some e \<Rightarrow> Inr (Some e)
           | None \<Rightarrow> resolve_frames w selector (Suc i) rest))"

definition resolve :: "world \<Rightarrow> page \<Rightarrow> selector \<Rightarrow> py_exception + node option" where
  "resolve w pg selector =
     (case fault w (QuerySelectorPage selector) of
        Some t \<Rightarrow> Inl (PlaywrightError t)
      | None \<Rightarrow>
          (case pw_query w (document pg) selector of
             Some e \<Rightarrow> Inr (Some e)
           | None \<Rightarrow> resolve_frames w selector 0 (frames pg)))"

definition script_click_result :: "world \<Rightarrow> page \<Rightarrow> selector \<Rightarrow> string option" where
  "script_click_result w pg selector =
     (case fault w (PageEvaluate ClickScript selector) of
        Some t \<Rightarrow> None
      | None \<Rightarrow> (case fst (js_click_script w pg selector) of Inl err \<Rightarrow> None | Inr r \<Rightarrow> Some r))"

definition select_calls :: "node \<Rightarrow> call list" where
  "select_calls element =
     [GetAttributeValue, EvaluateHandleParent, SelectOption (getAttribute element ''value'')]"

definition do_click_result :: "world \<Rightarrow> page \<Rightarrow> selector \<Rightarrow> outcome" where
  "do_click_result w pg selector =
     (case resolve w pg selector of
        Inl e \<Rightarrow> failure_outcome selector e
      | Inr None \<Rightarrow> failure_outcome selector (not_found_error selector)
      | Inr (Some element) \<Rightarrow>
          (case first_fault w
                  ([EvaluateTagName, GetElementOuterHtml] @
                   (if toLowerCase (tagName element) = ''option'' then select_calls element else [])) of
             Some t \<Rightarrow> failure_outcome selector (PlaywrightError t)
           | None \<Rightarrow>
               if toLowerCase (tagName element) = ''option''
               then select_outcome (getAttribute element ''value'') (outer_html w element)
               else click_outcome (script_click_result w pg selector) (outer_html w element)))"

text \<open>The calls \<^verbatim>\<open>find_element_within_iframes\<close> makes.\<close>

fun query_call :: "selector \<Rightarrow> call \<Rightarrow> bool" where
  "query_call sel (QuerySelectorPage s) = (s = sel)"
| "query_call sel (QuerySelectorFrame j s) = (s = sel)"
| "query_call sel c = False"

text \<open>What \<^verbatim>\<open>is_element_present\<close> returns or raises, as a function of the run and the page.\<close>

definition presence_result :: "world \<Rightarrow> page \<Rightarrow> selector \<Rightarrow> py_exception + bool" where
  "presence_result w pg selector =
     (case fault w (QuerySelectorPage selector) of
        Some t \<Rightarrow> Inl (PlaywrightError t)
      | None \<Rightarrow>
          (case pw_query w (document pg) selector of
             Some e \<Rightarrow> Inr True
           | None \<Rightarrow>
               (case fault w (PageEvaluate PresenceScript selector) of
                  Some t \<Rightarrow> Inl (PlaywrightError t)
                | None \<Rightarrow>
                    (case findElementInShadowDOMAndIframes (matches w) (document pg) selector of
                       Inl err \<Rightarrow> Inl (PlaywrightError (js_error_name err))
                     | Inr found \<Rightarrow> Inr (found \<noteq> None)))))"

section \<open>Example pages and runs\<close>

text \<open>The type selector: \<^verbatim>\<open>button\<close> matches the elements whose tag is \<^verbatim>\<open>button\<close>.\<close>

definition type_selector :: matcher where
  "type_selector s el = (toLowerCase (tagName el) = s)"

text \<open>A \<^verbatim>\<open>query_selector\<close> that looks at the regular DOM of the frame's document, as the
  comments of \<^verbatim>\<open>is_element_present\<close> describe it.\<close>

definition regular_dom_query :: "matcher \<Rightarrow> dom \<Rightarrow> selector \<Rightarrow> node option" where
  "regular_dom_query m d s = map_option fst (querySelector m s None d)"


definition quiet_world :: world where
  "quiet_world =
     \<lparr>matches = type_selector,
      pw_query = regular_dom_query type_selector,
      fault = (\<lambda>c. None),
      outer_html = (\<lambda>el. ''<'' @ toLowerCase (tagName el) @ ''>''),
      option_text = (\<lambda>el. []),
      click_reaction = (\<lambda>pg el. (pg, el)),
      select_reaction = (\<lambda>pg el. pg),
      mutations_during_click = [],
      mutations_during_settle = []\<rparr>"

definition button :: node where
  "button = Element ''BUTTON'' [] [] NoShadow NoBrowsingContext"

definition shadow_host :: node where
  "shadow_host = Element ''DIV'' [] [] (OpenShadow [button]) NoBrowsingContext"


definition foreign_frame :: node where
  "foreign_frame = Element ''IFRAME'' [] [] NoShadow CrossOrigin"

definition menu_button :: node where
  "menu_button = Element ''BUTTON'' [(''aria-expanded'', ''false'')] [] NoShadow NoBrowsingContext"

definition open_menu_button :: node where
  "open_menu_button = Element ''BUTTON'' [(''aria-expanded'', ''true'')] [] NoShadow NoBrowsingContext"

definition red_option :: node where
  "red_option = Element ''OPTION'' [(''value'', ''red'')] [] NoShadow NoBrowsingContext"

definition colour_select :: node where
  "colour_select = Element ''SELECT'' [] [red_option] NoShadow NoBrowsingContext"

definition grouped_select :: node where
  "grouped_select =
     Element ''SELECT'' [] [Element ''OPTGROUP'' [] [red_option] NoShadow NoBrowsingContext]
       NoShadow NoBrowsingContext"

definition bare_option :: node where
  "bare_option = Element ''OPTION'' [] [] NoShadow NoBrowsingContext"

definition bare_select :: node where
  "bare_select = Element ''SELECT'' [] [bare_option] NoShadow NoBrowsingContext"

text \<open>A page with one frame, the main frame.\<close>

definition page_of :: "dom \<Rightarrow> page" where
  "page_of d = \<lparr>document = d, frames = [d]\<rparr>"

definition fresh :: "page \<Rightarrow> state" where
  "fresh pg = \<lparr>live = pg, calls = []\<rparr>"

section \<open>The functions compute their summaries\<close>

lemma external_run:
  "external w c st =
     ((case fault w c of Some t \<Rightarrow> Inl (PlaywrightError t) | None \<Rightarrow> Inr ()),
      st\<lparr>calls := calls st @ [c]\<rparr>)"
  by (simp add: external_def)

lemma frames_loop_run:
  "\<exists>cs. frames_loop w sel i fs st = (resolve_frames w sel i fs, st\<lparr>calls := calls st @ cs\<rparr>)
        \<and> (\<forall>c\<in>set cs. query_call sel c)"
proof (induction fs arbitrary: i st)
  case Nil
  show ?case by (rule exI [of _ "[]"]) (simp add: ret_def)
next
  case (Cons f fs)
  let ?c = "QuerySelectorFrame i sel"
  let ?st = "st\<lparr>calls := calls st @ [?c]\<rparr>"
  show ?case
  proof (cases "fault w ?c")
    case (Some t)
    show ?thesis
      by (rule exI [of _ "[?c]"])
        (simp add: Some bind_def frame_query_selector_def external_run)
  next
    case None
    show ?thesis
    proof (cases "pw_query w f sel")
      case (Some e)
      show ?thesis
        by (rule exI [of _ "[?c]"])
          (simp add: None Some bind_def frame_query_selector_def external_run ret_def)
    next
      case pwNone: None
      from Cons.IH [of "Suc i" ?st] obtain cs where
        cs: "frames_loop w sel (Suc i) fs ?st = (resolve_frames w sel (Suc i) fs, ?st\<lparr>calls := calls ?st @ cs\<rparr>)"
        and q: "\<forall>c\<in>set cs. query_call sel c"
        by blast
      show ?thesis
        by (rule exI [of _ "?c # cs"])
          (use q in \<open>simp add: None pwNone bind_def frame_query_selector_def external_run ret_def cs\<close>)
    qed
  qed
qed

lemma find_element_run:
  "\<exists>cs. find_element_within_iframes w sel st = (resolve w (live st) sel, st\<lparr>calls := calls st @ cs\<rparr>)
        \<and> (\<forall>c\<in>set cs. query_call sel c)"
proof -
  let ?c = "QuerySelectorPage sel"
  let ?st = "st\<lparr>calls := calls st @ [?c]\<rparr>"
  show ?thesis
  proof (cases "fault w ?c")
    case (Some t)
    show ?thesis
      by (rule exI [of _ "[?c]"])
        (simp add: Some find_element_within_iframes_def page_query_selector_def bind_def
          external_run resolve_def)
  next
    case None
    show ?thesis
    proof (cases "pw_query w (document (live st)) sel")
      case (Some e)
      show ?thesis
        by (rule exI [of _ "[?c]"])
          (simp add: None Some find_element_within_iframes_def page_query_selector_def bind_def
            external_run resolve_def ret_def)
    next
      case pwNone: None
      from frames_loop_run [of w sel 0 "frames (live st)" ?st] obtain cs where
        cs: "frames_loop w sel 0 (frames (live st)) ?st
               = (resolve_frames w sel 0 (frames (live st)), ?st\<lparr>calls := calls ?st @ cs\<rparr>)"
        and q: "\<forall>c\<in>set cs. query_call sel c"
        by blast
      show ?thesis
        by (rule exI [of _ "?c # cs"])
          (use q in \<open>simp add: None pwNone find_element_within_iframes_def page_query_selector_def
            bind_def external_run resolve_def ret_def cs\<close>)
    qed
  qed
qed

lemma perform_javascript_click_run:
  "perform_javascript_click w sel st =
     (Inr (script_click_result w (live st) sel),
      st\<lparr>calls := calls st @ [PageEvaluate ClickScript sel],
         live := (case fault w (PageEvaluate ClickScript sel) of
                    Some t \<Rightarrow> live st
                  | None \<Rightarrow> snd (js_click_script w (live st) sel))\<rparr>)"
  by (simp add: perform_javascript_click_def script_click_result_def try_except_def bind_def
      external_run ret_def split: option.splits prod.splits sum.splits)

lemma best_effort_run:
  "try_except (external w c) (\<lambda>e. ret ()) st = (Inr (), st\<lparr>calls := calls st @ [c]\<rparr>)"
  by (simp add: try_except_def external_run ret_def split: option.splits)

lemma do_click_body_run:
  "\<exists>st'. try_except (do_click_body w sel) (\<lambda>e. ret (failure_outcome sel e)) st
           = (Inr (do_click_result w (live st) sel), st')"
proof -
  from find_element_run [of w sel st] obtain cs where
    f: "find_element_within_iframes w sel st = (resolve w (live st) sel, st\<lparr>calls := calls st @ cs\<rparr>)"
    by blast
  show ?thesis
  proof (cases "resolve w (live st) sel")
    case (Inl e)
    then show ?thesis
      by (simp add: try_except_def do_click_body_def bind_def f do_click_result_def ret_def)
  next
    case (Inr found)
    show ?thesis
    proof (cases found)
      case None
      then show ?thesis
        by (simp add: try_except_def do_click_body_def bind_def f Inr do_click_result_def ret_def
            raise_def)
    next
      case (Some el)
      have body: "do_click_body w sel st =
          bind (external w EvaluateTagName)
            (\<lambda>_. bind (external w GetElementOuterHtml)
            (\<lambda>_. if toLowerCase (tagName el) = ''option'' then
                    bind (external w GetAttributeValue)
                      (\<lambda>_. bind (external w EvaluateHandleParent)
                      (\<lambda>_. bind (external w (SelectOption (getAttribute el ''value'')))
                      (\<lambda>_ st. (Inr (select_outcome (getAttribute el ''value'') (outer_html w el)),
                                st\<lparr>live := select_reaction w (live st) el\<rparr>))))
                  else
                    bind (perform_javascript_click w sel)
                      (\<lambda>msg. ret (click_outcome msg (outer_html w el)))))
            (st\<lparr>calls := calls st @ cs @ [ScrollIntoViewIfNeeded, WaitForElementState]\<rparr>)"
        by (simp add: do_click_body_def bind_def f Inr Some best_effort_run)
      show ?thesis
        unfolding try_except_def body
        by (simp add: bind_def external_run perform_javascript_click_run ret_def
            do_click_result_def Inr Some select_calls_def
            split: option.splits)
    qed
  qed
qed

lemma do_click_run:
  "\<exists>st'. do_click w sel wait st = (Inr (do_click_result w (live st) sel), st')"
proof (cases "wait > 0")
  case True
  from do_click_body_run [of w sel "st\<lparr>calls := calls st @ [Sleep wait]\<rparr>"]
  show ?thesis by (simp add: do_click_def bind_def logged_def True)
next
  case False
  from do_click_body_run [of w sel st]
  show ?thesis by (simp add: do_click_def bind_def ret_def False)
qed

section \<open>Properties of \<^verbatim>\<open>add_event\<close>\<close>

lemma add_event_enabled:
  "add_event True now t d c =
     c\<lparr>buckets := (buckets c)(event_type_value t \<mapsto>
          (bucket_or_new c (event_type_value t))
            \<lparr>events := events (bucket_or_new c (event_type_value t)) @ [\<lparr>timestamp = now, data = d\<rparr>],
             event_count := event_count (bucket_or_new c (event_type_value t)) + 1\<rparr>)\<rparr>"
  by (simp add: add_event_def bucket_or_new_def Let_def split: option.splits)

lemma add_event_disabled: "add_event False now t d c = c"
  by (simp add: add_event_def)

lemma counts_ok_add_event:
  assumes "\<forall>k b. buckets c k = Some b \<longrightarrow> event_count b = int (length (events b))"
  shows "\<forall>k b. buckets (add_event en now t d c) k = Some b \<longrightarrow> event_count b = int (length (events b))"
  using assms
  by (cases en) (auto simp: add_event_enabled add_event_disabled bucket_or_new_def
      split: option.splits)

lemma counts_ok_add_events:
  assumes "\<forall>k b. buckets c k = Some b \<longrightarrow> event_count b = int (length (events b))"
  shows "\<forall>k b. buckets (add_events en cs c) k = Some b \<longrightarrow> event_count b = int (length (events b))"
  using assms unfolding add_events_def
proof (induction cs arbitrary: c)
  case Nil
  then show ?case by simp
next
  case (Cons x xs)
  obtain now t d where x: "x = (now, t, d)"
    by (cases x) auto
  show ?case
    using Cons.IH [OF counts_ok_add_event [OF Cons.prems, of en now t d]] by (simp add: x)
qed

text \<open>
  Claim C10. Starting from the collector the module creates, after any sequence of
  \<^verbatim>\<open>add_event\<close> calls every bucket has \<^verbatim>\<open>event_count\<close> equal to the length of its
  \<^verbatim>\<open>events\<close> list. With telemetry enabled a call replaces the bucket of its event type
  (a new empty one when there was none) by the same bucket with the one new event appended
  and the count increased by one, and changes nothing else; with telemetry disabled it
  returns the collector as it was.
\<close>

theorem add_event_keeps_counts:
  "(\<forall>k b. buckets (add_events en cs (initial_event_collector iid started)) k = Some b
        \<longrightarrow> event_count b = int (length (events b)))
   \<and> add_event True now t d c =
       c\<lparr>buckets := (buckets c)(event_type_value t \<mapsto>
          (bucket_or_new c (event_type_value t))
            \<lparr>events := events (bucket_or_new c (event_type_value t)) @ [\<lparr>timestamp = now, data = d\<rparr>],
             event_count := event_count (bucket_or_new c (event_type_value t)) + 1\<rparr>)\<rparr>
   \<and> add_event False now t d c = c"
proof -
  have "\<forall>k b. buckets (initial_event_collector iid started :: 'a event_collector) k = Some b
          \<longrightarrow> event_count b = int (length (events b))"
    by (simp add: initial_event_collector_def)
  from counts_ok_add_events [OF this, of en cs] show ?thesis
    by (simp add: add_event_enabled add_event_disabled)
qed

theorem add_event_keeps_counts_witness:
  "\<exists>b. buckets (add_events True
              [(''t1'', INTERACTION, \<lparr>detail = Some ''click'', additional_data = None\<rparr>),
               (''t2'', STEP, \<lparr>detail = None, additional_data = None\<rparr>),
               (''t3'', INTERACTION, \<lparr>detail = Some ''click'', additional_data = None\<rparr>)]
              (initial_event_collector ''id'' ''t0'' :: unit event_collector)) ''interaction'' = Some b
        \<and> event_count b = 2 \<and> length (events b) = 2"
  using add_event_keeps_counts [of True
      "[(''t1'', INTERACTION, \<lparr>detail = Some ''click'', additional_data = None\<rparr>),
        (''t2'', STEP, \<lparr>detail = None, additional_data = None\<rparr>),
        (''t3'', INTERACTION, \<lparr>detail = Some ''click'', additional_data = None\<rparr>)]"
      "''id''" "''t0''"]
  by (simp add: add_events_def add_event_enabled initial_event_collector_def bucket_or_new_def)

section \<open>Properties of \<^verbatim>\<open>click\<close>\<close>

text \<open>
  Claim C9. When the session manager has no current page, \<^verbatim>\<open>click\<close> raises the
  \<^verbatim>\<open>ValueError\<close> and returns no string; the only calls made before it are the telemetry
  event and \<^verbatim>\<open>get_current_page\<close>: no screenshot, highlight, subscription, query or
  script has been attempted.
\<close>

theorem click_without_page:
  "click w None selector wait_before_execution =
     (Inl (ValueError ''No active page found. OpenURL command opens a new page.''),
      [AddEvent ''interaction'' ''click'', GetCurrentPage])"
  by (simp add: click_def no_page_error_def)

section \<open>Properties of \<^verbatim>\<open>do_click\<close>\<close>

lemma do_click_fst: "fst (do_click w sel wait st) = Inr (do_click_result w (live st) sel)"
  using do_click_run [of w sel wait st] by auto

lemma find_element_fst: "fst (find_element_within_iframes w sel st) = resolve w (live st) sel"
  using find_element_run [of w sel st] by auto

lemma resolve_frames_no_match:
  "\<forall>frame\<in>set fs. pw_query w frame sel = None \<Longrightarrow>
     resolve_frames w sel i fs = Inr None \<or> (\<exists>t. resolve_frames w sel i fs = Inl (PlaywrightError t))"
  by (induction fs arbitrary: i) (auto split: option.splits)

lemma resolve_frames_no_fault:
  "\<forall>frame\<in>set fs. pw_query w frame sel = None \<Longrightarrow>
   \<forall>j < length fs. fault w (QuerySelectorFrame (i + j) sel) = None \<Longrightarrow>
     resolve_frames w sel i fs = Inr None"
proof (induction fs arbitrary: i)
  case Nil
  then show ?case by simp
next
  case (Cons f fs)
  from Cons.prems(2) have "fault w (QuerySelectorFrame i sel) = None"
    by force
  moreover have "\<forall>j < length fs. fault w (QuerySelectorFrame (Suc i + j) sel) = None"
  proof (intro allI impI)
    fix j assume "j < length fs"
    then show "fault w (QuerySelectorFrame (Suc i + j) sel) = None"
      using Cons.prems(2) [rule_format, of "Suc j"] by simp
  qed
  ultimately show ?case
    using Cons.IH [of "Suc i"] Cons.prems(1) by simp
qed

lemma sublist_selector_message: "sublist sel (invalid_selector_message sel)"
  unfolding invalid_selector_message_def by (rule sublist_appendI)

lemma sublist_guidance:
  "sublist ''since the selector is invalid. Proceed by retrieving DOM again.''
     (invalid_selector_message sel)"
  unfolding invalid_selector_message_def sublist_def
  by (rule exI [of _ "''Unable to click element with selector: \"'' @ sel @ ''\" ''"], rule exI [of _ "[]"]) simp

text \<open>
  Claim C2. When the browser library's \<^verbatim>\<open>query_selector\<close> resolves the locator neither on
  the page nor in any of \<^verbatim>\<open>page.frames\<close>, \<^verbatim>\<open>do_click\<close> returns (it does not raise) the
  failure outcome: both messages start with the invalid-selector message, which contains
  the locator literally and the instruction to retrieve the DOM again, and the detailed
  message ends with the text of the error. When none of the queries raised, that error is
  the \<^verbatim>\<open>ValueError\<close> of line 111.
\<close>

theorem do_click_no_match:
  assumes "pw_query w (document (live st)) selector = None"
    and "\<forall>frame\<in>set (frames (live st)). pw_query w frame selector = None"
  shows "\<exists>e. fst (do_click w selector wait st) =
              Inr \<lparr>summary_message = Some (invalid_selector_message selector),
                   detailed_message = invalid_selector_message selector @ ''. Error: '' @ str_exc e\<rparr>
            \<and> (fault w (QuerySelectorPage selector) = None
                \<and> (\<forall>j < length (frames (live st)). fault w (QuerySelectorFrame j selector) = None)
                \<longrightarrow> e = not_found_error selector)
            \<and> sublist selector (invalid_selector_message selector)
            \<and> sublist ''since the selector is invalid. Proceed by retrieving DOM again.''
                 (invalid_selector_message selector)"
proof -
  let ?pg = "live st"
  let ?quiet = "fault w (QuerySelectorPage selector) = None
        \<and> (\<forall>j < length (frames ?pg). fault w (QuerySelectorFrame j selector) = None)"
  have facts: "sublist selector (invalid_selector_message selector)
      \<and> sublist ''since the selector is invalid. Proceed by retrieving DOM again.''
           (invalid_selector_message selector)"
    by (simp add: sublist_selector_message sublist_guidance)
  have "resolve w ?pg selector = Inr None
        \<or> (\<exists>t. resolve w ?pg selector = Inl (PlaywrightError t) \<and> \<not> ?quiet)"
  proof (cases "fault w (QuerySelectorPage selector)")
    case (Some t)
    then show ?thesis by (simp add: resolve_def)
  next
    case None
    then have r: "resolve w ?pg selector = resolve_frames w selector 0 (frames ?pg)"
      by (simp add: resolve_def assms(1))
    show ?thesis
    proof (cases "\<forall>j < length (frames ?pg). fault w (QuerySelectorFrame j selector) = None")
      case True
      then show ?thesis
        using resolve_frames_no_fault [OF assms(2), of 0] by (simp add: r)
    next
      case False
      then show ?thesis
        using resolve_frames_no_match [OF assms(2), of 0] by (auto simp: r)
    qed
  qed
  then show ?thesis
  proof (elim disjE exE conjE)
    assume none: "resolve w ?pg selector = Inr None"
    show ?thesis
      by (rule exI [of _ "not_found_error selector"])
        (simp add: do_click_fst do_click_result_def none failure_outcome_def facts)
  next
    fix t
    assume raised: "resolve w ?pg selector = Inl (PlaywrightError t)" and nq: "\<not> ?quiet"
    show ?thesis
      by (rule exI [of _ "PlaywrightError t"])
        (use nq in \<open>auto simp: do_click_fst do_click_result_def raised failure_outcome_def facts\<close>)
  qed
qed

lemma lower_tags:
  "toLowerCase ''BUTTON'' = ''button''"
  "toLowerCase ''DIV'' = ''div''"
  "toLowerCase ''IFRAME'' = ''iframe''"
  "toLowerCase ''OPTION'' = ''option''"
  "toLowerCase ''SELECT'' = ''select''"
  by code_simp+

lemma lower_optgroup: "toLowerCase ''OPTGROUP'' = ''optgroup''"
  by code_simp

lemma quiet_fields:
  "matches quiet_world = type_selector"
  "pw_query quiet_world = regular_dom_query type_selector"
  "fault quiet_world c = None"
  "outer_html quiet_world el = ''<'' @ toLowerCase (tagName el) @ ''>''"
  "click_reaction quiet_world pg el = (pg, el)"
  "select_reaction quiet_world pg el = pg"
  "mutations_during_click quiet_world = []"
  "mutations_during_settle quiet_world = []"
  by (simp_all add: quiet_world_def)

theorem do_click_no_match_witness:
  "fst (do_click quiet_world ''a'' 0 (fresh (page_of [button]))) =
     Inr \<lparr>summary_message = Some ''Unable to click element with selector: \"a\" since the selector is invalid. Proceed by retrieving DOM again.'',
          detailed_message = ''Unable to click element with selector: \"a\" since the selector is invalid. Proceed by retrieving DOM again.. Error: Element with selector: \"a\" not found''\<rparr>"
  using do_click_no_match [of quiet_world "fresh (page_of [button])" "''a''" 0]
  by (simp add: quiet_fields fresh_def page_of_def button_def regular_dom_query_def type_selector_def
      lower_tags invalid_selector_message_def not_found_error_def)


lemma resolve_frames_same:
  "(\<And>j. fault w' (QuerySelectorFrame j sel) = fault w (QuerySelectorFrame j sel)) \<Longrightarrow>
   pw_query w' = pw_query w \<Longrightarrow> resolve_frames w' sel i fs = resolve_frames w sel i fs"
  by (induction fs arbitrary: i) (auto split: option.splits)

lemma do_click_result_best_effort:
  "do_click_result (w\<lparr>fault := (fault w)(ScrollIntoViewIfNeeded := x, WaitForElementState := y)\<rparr>) pg sel
     = do_click_result w pg sel"
proof -
  let ?w = "w\<lparr>fault := (fault w)(ScrollIntoViewIfNeeded := x, WaitForElementState := y)\<rparr>"
  have r: "resolve ?w pg sel = resolve w pg sel"
    using resolve_frames_same [of ?w sel w 0 "frames pg"]
    by (simp add: resolve_def split: option.splits)
  have s: "script_click_result ?w pg sel = script_click_result w pg sel"
  proof -
    have "js_click_script ?w pg sel = js_click_script w pg sel"
      by (simp add: js_click_script_def
          cong: sum.case_cong option.case_cong prod.case_cong if_cong)
    then show ?thesis
      by (simp add: script_click_result_def split: option.splits)
  qed
  have f: "first_fault ?w cs = first_fault w cs"
    if "ScrollIntoViewIfNeeded \<notin> set cs" "WaitForElementState \<notin> set cs" for cs
    using that by (induction cs) (auto split: option.splits)
  show ?thesis
    by (simp add: do_click_result_def r s f select_calls_def
        cong: sum.case_cong option.case_cong if_cong)
qed

text \<open>
  Claim C4, as amended. No exception escapes \<^verbatim>\<open>do_click\<close>: it always returns an outcome.
  An exception raised while resolving the locator, or by the first failing call among the
  tag read, the markup read and (for an option element) the three calls of the select
  path, is caught by the outer handler, and \<^verbatim>\<open>do_click\<close> returns the failure outcome whose
  detailed message ends with that error's text. An exception raised by scrolling into view
  or by the visibility wait is swallowed where it occurs: whatever these two calls do, the
  outcome of \<^verbatim>\<open>do_click\<close> is the same.
\<close>

theorem do_click_exception_handling:
  "(\<exists>out st'. do_click w selector wait st = (Inr out, st'))
   \<and> (\<forall>e. fst (find_element_within_iframes w selector st) = Inl e
          \<longrightarrow> fst (do_click w selector wait st) = Inr (failure_outcome selector e))
   \<and> (\<forall>element t.
          fst (find_element_within_iframes w selector st) = Inr (Some element)
          \<and> first_fault w ([EvaluateTagName, GetElementOuterHtml] @
               (if toLowerCase (tagName element) = ''option'' then select_calls element else []))
              = Some t
          \<longrightarrow> fst (do_click w selector wait st) = Inr (failure_outcome selector (PlaywrightError t)))
   \<and> (\<forall>x y. fst (do_click (w\<lparr>fault := (fault w)(ScrollIntoViewIfNeeded := x,
                                                    WaitForElementState := y)\<rparr>) selector wait st)
            = fst (do_click w selector wait st))"
proof (intro conjI allI impI)
  show "\<exists>out st'. do_click w selector wait st = (Inr out, st')"
    using do_click_run [of w selector wait st] by blast
next
  fix e
  assume "fst (find_element_within_iframes w selector st) = Inl e"
  then show "fst (do_click w selector wait st) = Inr (failure_outcome selector e)"
    by (simp add: do_click_fst find_element_fst do_click_result_def)
next
  fix element t
  assume "fst (find_element_within_iframes w selector st) = Inr (Some element)
          \<and> first_fault w ([EvaluateTagName, GetElementOuterHtml] @
               (if toLowerCase (tagName element) = ''option'' then select_calls element else []))
              = Some t"
  then show "fst (do_click w selector wait st) = Inr (failure_outcome selector (PlaywrightError t))"
    by (simp add: do_click_fst find_element_fst do_click_result_def)
next
  fix x y
  show "fst (do_click (w\<lparr>fault := (fault w)(ScrollIntoViewIfNeeded := x,
                                                    WaitForElementState := y)\<rparr>) selector wait st)
            = fst (do_click w selector wait st)"
    by (simp add: do_click_fst do_click_result_best_effort)
qed

lemma performed_no_fault: "first_fault w cs = None \<Longrightarrow> performed w cs = cs"
  by (induction cs) (auto split: option.splits)

lemma performed_subset: "set (performed w cs) \<subseteq> set cs"
  by (induction cs) (auto split: option.splits)

lemma option_path_log:
  assumes "resolve w (live st) sel = Inr (Some el)" and "toLowerCase (tagName el) = ''option''"
  shows "\<exists>cs. (\<forall>c\<in>set cs. query_call sel c)
           \<and> calls (snd (try_except (do_click_body w sel) (\<lambda>e. ret (failure_outcome sel e)) st))
               = calls st @ cs @ [ScrollIntoViewIfNeeded, WaitForElementState]
                   @ performed w ([EvaluateTagName, GetElementOuterHtml] @ select_calls el)"
proof -
  from find_element_run [of w sel st] obtain cs where
    f: "find_element_within_iframes w sel st = (resolve w (live st) sel, st\<lparr>calls := calls st @ cs\<rparr>)"
    and q: "\<forall>c\<in>set cs. query_call sel c"
    by blast
  have "calls (snd (try_except (do_click_body w sel) (\<lambda>e. ret (failure_outcome sel e)) st))
               = calls st @ cs @ [ScrollIntoViewIfNeeded, WaitForElementState]
                   @ performed w ([EvaluateTagName, GetElementOuterHtml] @ select_calls el)"
    by (simp add: try_except_def do_click_body_def bind_def f assms best_effort_run external_run
        ret_def select_calls_def split: option.splits)
  with q show ?thesis by blast
qed

lemma button_page_facts:
  "regular_dom_query type_selector [button] ''button'' = Some button"
  "findElementInShadowDOMAndIframes type_selector [button] ''button'' = Inr (Some (button, None))"
  by (simp_all add: regular_dom_query_def type_selector_def button_def lower_tags
      findElementInShadowDOMAndIframes.simps)

lemma quiet_click_button:
  "js_click_script (w\<lparr>matches := type_selector, click_reaction := (\<lambda>pg el. (pg, el))\<rparr>) (page_of [button]) ''button''
     = (Inr ''Executed JavaScript Click on element with selector: button'', page_of [button])"
  by (simp add: js_click_script_def page_of_def button_page_facts)
    (simp add: button_def lower_tags getAttribute_def executed_click_message_def)

theorem do_click_exception_handling_witness:
  "fst (do_click (quiet_world\<lparr>fault := (\<lambda>c. None)(QuerySelectorPage ''button'' \<mapsto> ''Target closed'')\<rparr>)
          ''button'' 0 (fresh (page_of [button])))
     = Inr \<lparr>summary_message = Some ''Unable to click element with selector: \"button\" since the selector is invalid. Proceed by retrieving DOM again.'',
            detailed_message = ''Unable to click element with selector: \"button\" since the selector is invalid. Proceed by retrieving DOM again.. Error: Target closed''\<rparr>
   \<and> fst (do_click (quiet_world\<lparr>fault := (\<lambda>c. None)(GetElementOuterHtml \<mapsto> ''Execution context was destroyed'')\<rparr>)
          ''button'' 0 (fresh (page_of [button])))
     = Inr \<lparr>summary_message = Some ''Unable to click element with selector: \"button\" since the selector is invalid. Proceed by retrieving DOM again.'',
            detailed_message = ''Unable to click element with selector: \"button\" since the selector is invalid. Proceed by retrieving DOM again.. Error: Execution context was destroyed''\<rparr>
   \<and> fst (do_click (quiet_world\<lparr>fault := (fault quiet_world)(ScrollIntoViewIfNeeded := Some ''Timeout 200ms exceeded.'',
                                          WaitForElementState := Some ''Timeout 200ms exceeded.'')\<rparr>)
          ''button'' 0 (fresh (page_of [button])))
     = fst (do_click quiet_world ''button'' 0 (fresh (page_of [button])))"
proof -
  let ?st = "fresh (page_of [button])"
  let ?w1 = "quiet_world\<lparr>fault := (\<lambda>c. None)(QuerySelectorPage ''button'' \<mapsto> ''Target closed'')\<rparr>"
  let ?w2 = "quiet_world\<lparr>fault := (\<lambda>c. None)(GetElementOuterHtml \<mapsto> ''Execution context was destroyed'')\<rparr>"
  have 1: "fst (find_element_within_iframes ?w1 ''button'' ?st) = Inl (PlaywrightError ''Target closed'')"
    by (simp add: find_element_fst resolve_def)
  have 2: "fst (find_element_within_iframes ?w2 ''button'' ?st) = Inr (Some button)"
    by (simp add: find_element_fst resolve_def quiet_fields fresh_def page_of_def button_page_facts)
  have 3: "toLowerCase (tagName button) \<noteq> ''option''"
    by (simp add: button_def lower_tags)
  from do_click_exception_handling [of ?w1 "''button''" 0 ?st] 1
  have a: "fst (do_click ?w1 ''button'' 0 ?st) = Inr (failure_outcome ''button'' (PlaywrightError ''Target closed''))"
    by blast
  from do_click_exception_handling [of ?w2 "''button''" 0 ?st] 2 3
  have b: "fst (do_click ?w2 ''button'' 0 ?st)
      = Inr (failure_outcome ''button'' (PlaywrightError ''Execution context was destroyed''))"
    by simp
  from do_click_exception_handling [of quiet_world "''button''" 0 ?st]
  have c: "fst (do_click (quiet_world\<lparr>fault := (fault quiet_world)(ScrollIntoViewIfNeeded := Some ''Timeout 200ms exceeded.'',
                                          WaitForElementState := Some ''Timeout 200ms exceeded.'')\<rparr>)
          ''button'' 0 ?st) = fst (do_click quiet_world ''button'' 0 ?st)"
    by blast
  show ?thesis
    using a b c by (simp add: failure_outcome_def invalid_selector_message_def)
qed

text \<open>The claim as first stated fails: a scroll that times out is not reported, and the
  click goes on to succeed.\<close>

theorem scroll_failure_is_not_reported:
  "fst (do_click (quiet_world\<lparr>fault := (\<lambda>c. None)(ScrollIntoViewIfNeeded \<mapsto> ''Timeout 200ms exceeded.'')\<rparr>)
          ''button'' 0 (fresh (page_of [button])))
     = Inr \<lparr>summary_message = Some ''Executed JavaScript Click on element with selector: button'',
            detailed_message = ''Executed JavaScript Click on element with selector: button The clicked element's outer HTML is: <button>.''\<rparr>"
proof -
  let ?w = "quiet_world\<lparr>fault := (\<lambda>c. None)(ScrollIntoViewIfNeeded \<mapsto> ''Timeout 200ms exceeded.'')\<rparr>"
  have r: "resolve ?w (page_of [button]) ''button'' = Inr (Some button)"
    by (simp add: resolve_def quiet_fields page_of_def button_page_facts)
  have j: "js_click_script ?w (page_of [button]) ''button''
     = (Inr ''Executed JavaScript Click on element with selector: button'', page_of [button])"
    using quiet_click_button [of ?w] by (simp add: quiet_world_def)
  have s: "script_click_result ?w (page_of [button]) ''button''
      = Some ''Executed JavaScript Click on element with selector: button''"
    by (simp add: script_click_result_def j)
  show ?thesis
    by (simp add: do_click_fst fresh_def do_click_result_def r s click_outcome_def quiet_fields)
      (simp add: button_def lower_tags)
qed

text \<open>An exception of the scripted click is caught inside \<^verbatim>\<open>perform_javascript_click\<close>,
  which then returns \<^verbatim>\<open>None\<close>; \<^verbatim>\<open>do_click\<close> puts it into its outcome.\<close>

lemma scripted_click_exception_gives_None:
  "fst (do_click (quiet_world\<lparr>fault := (\<lambda>c. None)(PageEvaluate ClickScript ''button'' \<mapsto> ''Execution context was destroyed'')\<rparr>)
          ''button'' 0 (fresh (page_of [button])))
     = Inr \<lparr>summary_message = None,
            detailed_message = ''None The clicked element's outer HTML is: <button>.''\<rparr>"
proof -
  let ?w = "quiet_world\<lparr>fault := (\<lambda>c. None)(PageEvaluate ClickScript ''button'' \<mapsto> ''Execution context was destroyed'')\<rparr>"
  have r: "resolve ?w (page_of [button]) ''button'' = Inr (Some button)"
    by (simp add: resolve_def quiet_fields page_of_def button_page_facts)
  have s: "script_click_result ?w (page_of [button]) ''button'' = None"
    by (simp add: script_click_result_def)
  show ?thesis
    by (simp add: do_click_fst fresh_def do_click_result_def r s click_outcome_def quiet_fields)
      (simp add: button_def lower_tags)
qed

lemma do_click_unfold:
  "do_click w sel wait st =
     try_except (do_click_body w sel) (\<lambda>e. ret (failure_outcome sel e))
       (if wait > 0 then st\<lparr>calls := calls st @ [Sleep wait]\<rparr> else st)"
  by (simp add: do_click_def bind_def logged_def ret_def)

lemma query_call_not_script: "query_call sel c \<Longrightarrow> c \<noteq> PageEvaluate ClickScript sel"
  by (cases c) auto

lemma sublist_select_summary:
  "sublist (py_str v) (''Select menu option \"'' @ py_str v @ ''\" selected'')"
  by (rule sublist_appendI)

text \<open>
  Claim C5, as amended. When the element \<^verbatim>\<open>do_click\<close> resolved has the tag \<^verbatim>\<open>option\<close>, the
  scripted click is never invoked: no evaluation of the click script is added to the log,
  whatever the calls of the run do. When the tag read, the markup read and the three calls
  of the select path (read the \<^verbatim>\<open>value\<close> attribute, take the parent handle,
  \<^verbatim>\<open>select_option\<close> on it) all return, the log ends with those three calls and \<^verbatim>\<open>do_click\<close>
  returns the select outcome, whose message contains what \<^verbatim>\<open>get_attribute("value")\<close>
  returned as Python prints it: the value of the attribute, or the word \<^verbatim>\<open>None\<close> when the
  option has no such attribute. When one of these calls raises, \<^verbatim>\<open>do_click\<close> returns the
  failure outcome with the error text of the first that did.
\<close>

theorem option_is_selected_not_clicked:
  assumes "fst (find_element_within_iframes w selector st) = Inr (Some element)"
    and "toLowerCase (tagName element) = ''option''"
  shows "(PageEvaluate ClickScript selector \<notin> set (calls st)
            \<longrightarrow> PageEvaluate ClickScript selector \<notin> set (calls (snd (do_click w selector wait st))))
     \<and> (first_fault w ([EvaluateTagName, GetElementOuterHtml] @ select_calls element) = None
          \<longrightarrow> fst (do_click w selector wait st)
                = Inr (select_outcome (getAttribute element ''value'') (outer_html w element))
              \<and> (\<exists>before. calls (snd (do_click w selector wait st)) = before @ select_calls element))
     \<and> (\<forall>t. first_fault w ([EvaluateTagName, GetElementOuterHtml] @ select_calls element) = Some t
          \<longrightarrow> fst (do_click w selector wait st)
                = Inr (failure_outcome selector (PlaywrightError t)))
     \<and> (\<exists>m. summary_message (select_outcome (getAttribute element ''value'') (outer_html w element))
                = Some m
              \<and> sublist (py_str (getAttribute element ''value'')) m)
     \<and> (getAttribute element ''value'' = None
          \<longrightarrow> summary_message (select_outcome (getAttribute element ''value'') (outer_html w element))
                = Some ''Select menu option \"None\" selected'')"
proof -
  let ?st = "if wait > 0 then st\<lparr>calls := calls st @ [Sleep wait]\<rparr> else st"
  let ?path = "[EvaluateTagName, GetElementOuterHtml] @ select_calls element"
  have r': "resolve w (live st) selector = Inr (Some element)"
    using assms(1) by (simp add: find_element_fst)
  then have r: "resolve w (live ?st) selector = Inr (Some element)"
    by (cases "wait > 0") simp_all
  from option_path_log [OF r assms(2)] obtain cs where
    q: "\<forall>c\<in>set cs. query_call selector c"
    and log: "calls (snd (do_click w selector wait st))
        = calls ?st @ cs @ [ScrollIntoViewIfNeeded, WaitForElementState] @ performed w ?path"
    by (auto simp: do_click_unfold)
  have not_cs: "PageEvaluate ClickScript selector \<notin> set cs"
    using q query_call_not_script by blast
  have not_path: "PageEvaluate ClickScript selector \<notin> set (performed w ?path)"
    using performed_subset [of w ?path] by (auto simp: select_calls_def)
  have 1: "PageEvaluate ClickScript selector \<notin> set (calls st)
            \<longrightarrow> PageEvaluate ClickScript selector \<notin> set (calls (snd (do_click w selector wait st)))"
    using not_cs not_path by (simp add: log)
  have 2: "fst (do_click w selector wait st)
                = Inr (select_outcome (getAttribute element ''value'') (outer_html w element))
              \<and> (\<exists>before. calls (snd (do_click w selector wait st)) = before @ select_calls element)"
    if quiet: "first_fault w ?path = None"
  proof
    show "fst (do_click w selector wait st)
                = Inr (select_outcome (getAttribute element ''value'') (outer_html w element))"
      using quiet by (simp add: do_click_fst do_click_result_def r' assms(2))
    have "calls (snd (do_click w selector wait st))
        = (calls ?st @ cs @ [ScrollIntoViewIfNeeded, WaitForElementState, EvaluateTagName,
             GetElementOuterHtml]) @ select_calls element"
      unfolding log performed_no_fault [OF quiet] by simp
    then show "\<exists>before. calls (snd (do_click w selector wait st)) = before @ select_calls element"
      by blast
  qed
  have 3: "\<exists>m. summary_message (select_outcome (getAttribute element ''value'') (outer_html w element))
                = Some m
              \<and> sublist (py_str (getAttribute element ''value'')) m"
  proof -
    have "summary_message (select_outcome (getAttribute element ''value'') (outer_html w element))
        = Some (''Select menu option \"'' @ py_str (getAttribute element ''value'') @ ''\" selected'')"
      by (simp add: select_outcome_def)
    then show ?thesis
      using sublist_select_summary [of "getAttribute element ''value''"] by blast
  qed
  have 4: "fst (do_click w selector wait st) = Inr (failure_outcome selector (PlaywrightError t))"
    if "first_fault w ?path = Some t" for t
    using that by (simp add: do_click_fst do_click_result_def r' assms(2))
  have 5: "getAttribute element ''value'' = None
          \<longrightarrow> summary_message (select_outcome (getAttribute element ''value'') (outer_html w element))
                = Some ''Select menu option \"None\" selected''"
    by (simp add: select_outcome_def)
  from 1 2 3 4 5 show ?thesis by blast
qed

lemma select_page_facts:
  "regular_dom_query type_selector [colour_select] ''option'' = Some red_option"
  "regular_dom_query type_selector [grouped_select] ''option'' = Some red_option"
  "regular_dom_query type_selector [bare_select] ''option'' = Some bare_option"
  by (simp_all add: regular_dom_query_def type_selector_def colour_select_def red_option_def
      grouped_select_def bare_select_def bare_option_def lower_tags lower_optgroup)

theorem option_is_selected_not_clicked_witness:
  "PageEvaluate ClickScript ''option''
      \<notin> set (calls (snd (do_click quiet_world ''option'' 0 (fresh (page_of [colour_select])))))
   \<and> fst (do_click quiet_world ''option'' 0 (fresh (page_of [colour_select])))
      = Inr \<lparr>summary_message = Some ''Select menu option \"red\" selected'',
             detailed_message = ''Select menu option \"red\" selected. The select element's outer HTML is: <option>.''\<rparr>
   \<and> (\<exists>before. calls (snd (do_click quiet_world ''option'' 0 (fresh (page_of [colour_select]))))
          = before @ [GetAttributeValue, EvaluateHandleParent, SelectOption (Some ''red'')])
   \<and> fst (do_click (quiet_world\<lparr>fault := (\<lambda>c. None)(GetAttributeValue \<mapsto> ''Target closed'')\<rparr>)
            ''option'' 0 (fresh (page_of [colour_select])))
      = Inr (failure_outcome ''option'' (PlaywrightError ''Target closed''))"
proof -
  let ?st = "fresh (page_of [colour_select])"
  let ?w = "quiet_world\<lparr>fault := (\<lambda>c. None)(GetAttributeValue \<mapsto> ''Target closed'')\<rparr>"
  have 1: "fst (find_element_within_iframes quiet_world ''option'' ?st) = Inr (Some red_option)"
    by (simp add: find_element_fst resolve_def quiet_fields fresh_def page_of_def select_page_facts)
  have f1w: "fst (find_element_within_iframes ?w ''option'' ?st) = Inr (Some red_option)"
    by (simp add: find_element_fst resolve_def quiet_fields fresh_def page_of_def select_page_facts)
  have 2: "toLowerCase (tagName red_option) = ''option''"
    by (simp add: red_option_def lower_tags)
  have 3: "getAttribute red_option ''value'' = Some ''red''"
    by (simp add: getAttribute_def red_option_def)
  have a: "PageEvaluate ClickScript ''option''
      \<notin> set (calls (snd (do_click quiet_world ''option'' 0 ?st)))
   \<and> fst (do_click quiet_world ''option'' 0 ?st)
      = Inr \<lparr>summary_message = Some ''Select menu option \"red\" selected'',
             detailed_message = ''Select menu option \"red\" selected. The select element's outer HTML is: <option>.''\<rparr>
   \<and> (\<exists>before. calls (snd (do_click quiet_world ''option'' 0 ?st))
          = before @ [GetAttributeValue, EvaluateHandleParent, SelectOption (Some ''red'')])"
    using option_is_selected_not_clicked [OF 1 2, of 0]
    by (simp add: quiet_fields 3 select_calls_def select_outcome_def 2)
      (simp add: fresh_def)
  have b: "fst (do_click ?w ''option'' 0 ?st)
      = Inr (failure_outcome ''option'' (PlaywrightError ''Target closed''))"
    using option_is_selected_not_clicked [OF f1w 2, of 0]
    by (simp add: select_calls_def)
  from a b show ?thesis by blast
qed

text \<open>The claim as first stated fails when a call of the select path raises, as
  \<^verbatim>\<open>select_option\<close> does on a parent that is not a select control (here the option's parent
  is an \<^verbatim>\<open>optgroup\<close>): \<^verbatim>\<open>do_click\<close> returns the failure outcome. And for an option without a
  \<^verbatim>\<open>value\<close> attribute the message holds the word \<^verbatim>\<open>None\<close>.\<close>

theorem option_select_can_fail:
  "fst (do_click (quiet_world\<lparr>fault := (\<lambda>c. None)(SelectOption (Some ''red'')
                      \<mapsto> ''Error: Element is not a <select> element'')\<rparr>)
          ''option'' 0 (fresh (page_of [grouped_select])))
     = Inr \<lparr>summary_message = Some ''Unable to click element with selector: \"option\" since the selector is invalid. Proceed by retrieving DOM again.'',
            detailed_message = ''Unable to click element with selector: \"option\" since the selector is invalid. Proceed by retrieving DOM again.. Error: Error: Element is not a <select> element''\<rparr>
   \<and> getAttribute bare_option ''value'' = None
   \<and> fst (do_click quiet_world ''option'' 0 (fresh (page_of [bare_select])))
     = Inr \<lparr>summary_message = Some ''Select menu option \"None\" selected'',
            detailed_message = ''Select menu option \"None\" selected. The select element's outer HTML is: <option>.''\<rparr>"
proof -
  let ?w = "quiet_world\<lparr>fault := (\<lambda>c. None)(SelectOption (Some ''red'')
                      \<mapsto> ''Error: Element is not a <select> element'')\<rparr>"
  have t: "toLowerCase (tagName red_option) = ''option''" "toLowerCase (tagName bare_option) = ''option''"
    by (simp_all add: red_option_def bare_option_def lower_tags)
  have v: "getAttribute red_option ''value'' = Some ''red''" "getAttribute bare_option ''value'' = None"
    by (simp_all add: getAttribute_def red_option_def bare_option_def)
  have r: "resolve ?w (page_of [grouped_select]) ''option'' = Inr (Some red_option)"
    by (simp add: resolve_def quiet_fields page_of_def select_page_facts)
  have 1: "fst (do_click ?w ''option'' 0 (fresh (page_of [grouped_select])))
      = Inr (failure_outcome ''option'' (PlaywrightError ''Error: Element is not a <select> element''))"
    by (simp add: do_click_fst fresh_def do_click_result_def r t v select_calls_def)
  have r2: "resolve quiet_world (page_of [bare_select]) ''option'' = Inr (Some bare_option)"
    by (simp add: resolve_def quiet_fields page_of_def select_page_facts)
  have 2: "fst (do_click quiet_world ''option'' 0 (fresh (page_of [bare_select])))
      = Inr (select_outcome None ''<option>'')"
    by (simp add: do_click_fst fresh_def do_click_result_def r2 t v select_calls_def quiet_fields)
  show ?thesis
    using 1 2 v(2)
    by (simp add: failure_outcome_def invalid_selector_message_def select_outcome_def)
qed

lemma map_of_other_key:
  "k' \<noteq> k \<Longrightarrow> map_of (filter (\<lambda>p. fst p \<noteq> k) xs) k' = map_of xs k'"
  by (induction xs) auto

text \<open>
  Claim C6. When the click script runs and the element it finds is not an option, it clicks
  the element, and \<^verbatim>\<open>perform_javascript_click\<close> returns the executed-click message followed
  by the notice that a menu has appeared exactly when \<^verbatim>\<open>aria-expanded\<close> was \<^verbatim>\<open>"false"\<close>
  before the click and is \<^verbatim>\<open>"true"\<close> after it; otherwise it returns the plain
  executed-click message.
\<close>

theorem expanded_menu_is_announced:
  assumes "fault w (PageEvaluate ClickScript selector) = None"
    and "findElementInShadowDOMAndIframes (matches w) (document (live st)) selector
           = Inr (Some (element, parent))"
    and "toLowerCase (tagName element) \<noteq> ''option''"
    and "click_reaction w (live st)
           (if toLowerCase (tagName element) = ''a'' then set_target_self element else element)
           = (pg', clicked)"
  shows "fst (perform_javascript_click w selector st) =
           Inr (Some (if getAttribute element ''aria-expanded'' = Some ''false''
                         \<and> getAttribute clicked ''aria-expanded'' = Some ''true''
                      then executed_click_message selector @ menu_notice
                      else executed_click_message selector))"
proof -
  have t: "getAttribute (set_target_self element) ''aria-expanded'' = getAttribute element ''aria-expanded''"
    by (cases element) (simp add: getAttribute_def map_of_other_key split_def)
  show ?thesis
    using assms t
    by (auto simp: perform_javascript_click_run script_click_result_def js_click_script_def
        Let_def)
qed

lemma menu_page_facts:
  "findElementInShadowDOMAndIframes type_selector [menu_button] ''button'' = Inr (Some (menu_button, None))"
  by (simp add: type_selector_def menu_button_def lower_tags findElementInShadowDOMAndIframes.simps)

theorem expanded_menu_is_announced_witness:
  "fst (perform_javascript_click (quiet_world\<lparr>click_reaction := (\<lambda>pg el. (pg, open_menu_button))\<rparr>)
          ''button'' (fresh (page_of [menu_button])))
     = Inr (Some ''Executed JavaScript Click on element with selector: button. Very important: As a consequence, a menu has appeared where you may need to make further selection. Very important: Get all_fields DOM to complete the action.'')
   \<and> fst (perform_javascript_click quiet_world ''button'' (fresh (page_of [menu_button])))
     = Inr (Some ''Executed JavaScript Click on element with selector: button'')"
proof -
  let ?w = "quiet_world\<lparr>click_reaction := (\<lambda>pg el. (pg, open_menu_button))\<rparr>"
  let ?st = "fresh (page_of [menu_button])"
  have t: "toLowerCase (tagName menu_button) \<noteq> ''option''" "toLowerCase (tagName menu_button) \<noteq> ''a''"
    by (simp_all add: menu_button_def lower_tags)
  have a: "getAttribute menu_button ''aria-expanded'' = Some ''false''"
    "getAttribute open_menu_button ''aria-expanded'' = Some ''true''"
    by (simp_all add: getAttribute_def menu_button_def open_menu_button_def)
  have f: "findElementInShadowDOMAndIframes (matches ?w) (document (live ?st)) ''button''
      = Inr (Some (menu_button, None))"
    "findElementInShadowDOMAndIframes (matches quiet_world) (document (live ?st)) ''button''
      = Inr (Some (menu_button, None))"
    by (simp_all add: quiet_fields fresh_def page_of_def menu_page_facts)
  have fw: "fault ?w (PageEvaluate ClickScript ''button'') = None"
    "fault quiet_world (PageEvaluate ClickScript ''button'') = None"
    by (simp_all add: quiet_fields)
  have cw: "click_reaction ?w (live ?st)
        (if toLowerCase (tagName menu_button) = ''a'' then set_target_self menu_button else menu_button)
      = (live ?st, open_menu_button)"
    by simp
  have cq: "click_reaction quiet_world (live ?st)
        (if toLowerCase (tagName menu_button) = ''a'' then set_target_self menu_button else menu_button)
      = (live ?st, menu_button)"
    by (simp add: quiet_fields t)
  have 1: "fst (perform_javascript_click ?w ''button'' ?st)
     = Inr (Some (executed_click_message ''button'' @ menu_notice))"
    using expanded_menu_is_announced [OF fw(1) f(1) t(1) cw] by (simp add: a)
  have 2: "fst (perform_javascript_click quiet_world ''button'' ?st)
     = Inr (Some (executed_click_message ''button''))"
    using expanded_menu_is_announced [OF fw(2) f(2) t(1) cq] by (simp add: a)
  show ?thesis
    using 1 2 by (simp add: executed_click_message_def menu_notice_def)
qed

section \<open>Properties of the in-page search and of \<^verbatim>\<open>is_element_present\<close>\<close>

lemma for_of_skip:
  "(\<And>x. x \<in> set xs \<Longrightarrow> P x \<Longrightarrow> body x = Inr None) \<Longrightarrow>
     for_of body (filter (\<lambda>x. \<not> P x) xs) = for_of body xs"
  by (induction xs) (auto split: sum.splits option.splits)

lemma for_of_total:
  "(\<And>x. x \<in> set xs \<Longrightarrow> \<exists>r. body x = Inr r) \<Longrightarrow> \<exists>r. for_of body xs = Inr r"
proof (induction xs)
  case Nil
  then show ?case by simp
next
  case (Cons a xs)
  from Cons.prems [of a] obtain r where r: "body a = Inr r" by auto
  from Cons.IH Cons.prems obtain r' where r': "for_of body xs = Inr r'" by auto
  show ?case by (cases r) (simp_all add: r r')
qed

lemma search_never_throws:
  "\<exists>r. findElementInShadowDOMAndIframes m parent s = Inr r"
  "\<exists>r. visit_element m' s' el = Inr r"
proof (induction m parent s and m' s' el rule: findElementInShadowDOMAndIframes_visit_element.induct)
  case (1 m parent s)
  show ?case
  proof (cases "querySelector m s None parent")
    case None
    then show ?thesis
      using for_of_total [of "querySelectorAll_star parent" "visit_element m s"] 1
      by (simp add: findElementInShadowDOMAndIframes.simps)
  next
    case (Some a)
    then show ?thesis by (simp add: findElementInShadowDOMAndIframes.simps)
  qed
next
  case (2 m s el)
  show ?case
  proof (cases "shadowRoot el")
    case None
    show ?thesis
    proof (cases "content el")
      case (SameOrigin d)
      then show ?thesis
        using None 2(2) [of None "Some d" d]
        by (auto simp: visit_element.simps)
    qed (simp_all add: visit_element.simps None)
  next
    case (Some sr)
    from 2(1) [OF Some] obtain r where r: "findElementInShadowDOMAndIframes m sr s = Inr r"
      by blast
    show ?thesis
    proof (cases r)
      case None
      show ?thesis
      proof (cases "content el")
        case (SameOrigin d)
        then show ?thesis
          using Some r None 2(2) [of None "Some d" d]
          by (auto simp: visit_element.simps)
      qed (simp_all add: visit_element.simps Some r None)
    next
      case (Some a)
      then show ?thesis by (simp add: visit_element.simps \<open>shadowRoot el = Some sr\<close> r)
    qed
  qed
qed

lemma visit_cross_origin:
  "content el = CrossOrigin \<Longrightarrow>
     visit_element m s el =
       (case shadowRoot el of None \<Rightarrow> Inr None | Some sr \<Rightarrow> findElementInShadowDOMAndIframes m sr s)"
  by (simp add: visit_element.simps split: option.splits sum.splits)

lemma is_element_present_run:
  "\<exists>cs. is_element_present w sel st = (presence_result w (live st) sel, st\<lparr>calls := calls st @ cs\<rparr>)"
proof (cases "fault w (QuerySelectorPage sel)")
  case (Some t)
  show ?thesis
    by (rule exI [of _ "[QuerySelectorPage sel]"])
      (simp add: is_element_present_def page_query_selector_def bind_def external_run
        presence_result_def Some)
next
  case None
  show ?thesis
  proof (cases "pw_query w (document (live st)) sel")
    case (Some e)
    show ?thesis
      by (rule exI [of _ "[QuerySelectorPage sel]"])
        (simp add: is_element_present_def page_query_selector_def bind_def external_run
          presence_result_def None Some ret_def)
  next
    case pwNone: None
    show ?thesis
      by (rule exI [of _ "[QuerySelectorPage sel, PageEvaluate PresenceScript sel]"])
        (simp add: is_element_present_def page_query_selector_def bind_def external_run
          presence_result_def None pwNone ret_def split: option.splits sum.splits)
  qed
qed

text \<open>
  Claim C7. The search the two scripts share never throws: the read of a frame's document
  is the only step that can, and its \<^verbatim>\<open>catch\<close> continues the loop. Visiting a cross-origin
  frame yields what the search of its shadow root yields (nothing, when it has none), and
  the search of a root gives the same result as the loop run over the root's elements
  without the cross-origin frames: they are treated as holding no match and the traversal
  goes on with the remaining elements. So \<^verbatim>\<open>is_element_present\<close> returns a boolean whenever
  its two calls on the browser library return, and \<^verbatim>\<open>perform_javascript_click\<close> never
  raises.
\<close>

theorem cross_origin_frames_are_skipped:
  "(\<exists>r. findElementInShadowDOMAndIframes m parent s = Inr r)
   \<and> (content el = CrossOrigin \<longrightarrow>
        visit_element m s el =
          (case shadowRoot el of None \<Rightarrow> Inr None
           | Some sr \<Rightarrow> findElementInShadowDOMAndIframes m sr s))
   \<and> (querySelector m s None parent = None \<longrightarrow>
        findElementInShadowDOMAndIframes m parent s =
          for_of (visit_element m s)
            (filter (\<lambda>el. \<not> cross_origin_iframe el) (querySelectorAll_star parent)))
   \<and> (fault w (QuerySelectorPage s) = None \<and> fault w (PageEvaluate PresenceScript s) = None \<longrightarrow>
        (\<exists>b. fst (is_element_present w s st) = Inr b))
   \<and> (\<exists>r. fst (perform_javascript_click w s st) = Inr r)"
proof (intro conjI impI)
  show "\<exists>r. findElementInShadowDOMAndIframes m parent s = Inr r"
    by (rule search_never_throws)
  show "visit_element m s el =
          (case shadowRoot el of None \<Rightarrow> Inr None
           | Some sr \<Rightarrow> findElementInShadowDOMAndIframes m sr s)" if "content el = CrossOrigin"
    using that by (rule visit_cross_origin)
  show "findElementInShadowDOMAndIframes m parent s =
          for_of (visit_element m s)
            (filter (\<lambda>el. \<not> cross_origin_iframe el) (querySelectorAll_star parent))"
    if "querySelector m s None parent = None"
  proof -
    have "for_of (visit_element m s)
            (filter (\<lambda>el. \<not> cross_origin_iframe el) (querySelectorAll_star parent))
          = for_of (visit_element m s) (querySelectorAll_star parent)"
      by (rule for_of_skip) (simp add: cross_origin_iframe_def visit_cross_origin)
    then show ?thesis
      using that by (simp add: findElementInShadowDOMAndIframes.simps)
  qed
  show "\<exists>b. fst (is_element_present w s st) = Inr b"
    if "fault w (QuerySelectorPage s) = None \<and> fault w (PageEvaluate PresenceScript s) = None"
  proof -
    obtain r where "findElementInShadowDOMAndIframes (matches w) (document (live st)) s = Inr r"
      using search_never_throws(1) by blast
    with that have "\<exists>b. presence_result w (live st) s = Inr b"
      by (auto simp: presence_result_def split: option.splits)
    then show ?thesis
      using is_element_present_run [of w s st] by auto
  qed
  show "\<exists>r. fst (perform_javascript_click w s st) = Inr r"
    by (simp add: perform_javascript_click_run)
qed

theorem cross_origin_frames_are_skipped_witness:
  "findElementInShadowDOMAndIframes type_selector [foreign_frame, shadow_host] ''button''
     = Inr (Some (button, None))
   \<and> visit_element type_selector ''button'' foreign_frame = Inr None
   \<and> fst (is_element_present quiet_world ''button'' (fresh (page_of [foreign_frame, shadow_host])))
     = Inr True"
proof -
  let ?d = "[foreign_frame, shadow_host]"
  let ?st = "fresh (page_of ?d)"
  have q: "querySelector type_selector ''button'' None ?d = None"
    by (simp add: type_selector_def foreign_frame_def shadow_host_def lower_tags)
  have c: "cross_origin_iframe foreign_frame" "\<not> cross_origin_iframe shadow_host"
    by (simp_all add: cross_origin_iframe_def foreign_frame_def shadow_host_def lower_tags)
  have a: "querySelectorAll_star ?d = ?d"
    by (simp add: foreign_frame_def shadow_host_def)
  have v: "visit_element type_selector ''button'' shadow_host = Inr (Some (button, None))"
    by (simp add: visit_element.simps shadow_host_def button_page_facts)
  note skipped = cross_origin_frames_are_skipped
    [of type_selector ?d "''button''" foreign_frame quiet_world ?st]
  have 1: "findElementInShadowDOMAndIframes type_selector ?d ''button'' = Inr (Some (button, None))"
    using skipped q by (simp add: a c v)
  have 2: "visit_element type_selector ''button'' foreign_frame = Inr None"
    using skipped by (simp add: foreign_frame_def)
  have 3: "fst (is_element_present quiet_world ''button'' ?st) = Inr True"
    using is_element_present_run [of quiet_world "''button''" ?st]
    by (auto simp: presence_result_def quiet_fields fresh_def page_of_def regular_dom_query_def q 1)
  from 1 2 3 show ?thesis by blast
qed

text \<open>
  Claim C8. \<^verbatim>\<open>is_element_present\<close> leaves the page as it found it, and a second call made in
  the state the first one left returns (or raises) the same as the first.
\<close>

theorem is_element_present_repeatable:
  assumes "is_element_present w selector st = (r, st')"
  shows "live st' = live st \<and> fst (is_element_present w selector st') = r"
  using assms is_element_present_run [of w selector st] is_element_present_run [of w selector st']
  by auto

theorem is_element_present_repeatable_witness:
  "fst (is_element_present quiet_world ''button''
          (snd (is_element_present quiet_world ''button'' (fresh (page_of [foreign_frame, shadow_host])))))
     = fst (is_element_present quiet_world ''button'' (fresh (page_of [foreign_frame, shadow_host])))
   \<and> live (snd (is_element_present quiet_world ''button'' (fresh (page_of [foreign_frame, shadow_host]))))
     = page_of [foreign_frame, shadow_host]"
  using is_element_present_repeatable [of quiet_world "''button''" "fresh (page_of [foreign_frame, shadow_host])"
      "fst (is_element_present quiet_world ''button'' (fresh (page_of [foreign_frame, shadow_host])))"
      "snd (is_element_present quiet_world ''button'' (fresh (page_of [foreign_frame, shadow_host])))"]
  by (simp add: fresh_def)

section \<open>Locators that match inside shadow roots\<close>



lemma prefix_executed:
  "prefix (executed_click_message sel) (executed_click_message sel @ menu_notice)"
  by simp








section \<open>The mutation window of \<^verbatim>\<open>click\<close>\<close>

lemma appends_ret: "appends_calls (ret x)"
  by (simp add: appends_calls_def ret_def)

lemma appends_raise: "appends_calls (raise e)"
  by (simp add: appends_calls_def raise_def)

lemma appends_external: "appends_calls (external w c)"
  by (simp add: appends_calls_def external_run)

lemma appends_logged: "appends_calls (logged c)"
  by (simp add: appends_calls_def logged_def)

lemma appends_bind:
  assumes "appends_calls act" and "\<And>x. appends_calls (f x)"
  shows "appends_calls (bind act f)"
  unfolding appends_calls_def
proof
  fix st
  obtain r st1 where a: "act st = (r, st1)" by (cases "act st")
  from assms(1) a obtain cs1 where c1: "calls st1 = calls st @ cs1"
    by (auto simp: appends_calls_def dest!: spec [of _ st])
  show "\<exists>cs. calls (snd (bind act f st)) = calls st @ cs"
  proof (cases r)
    case (Inl e)
    then show ?thesis by (simp add: bind_def a c1)
  next
    case (Inr x)
    from assms(2) [of x] obtain cs2 where "calls (snd (f x st1)) = calls st1 @ cs2"
      by (auto simp: appends_calls_def dest!: spec [of _ st1])
    then show ?thesis by (simp add: bind_def a Inr c1)
  qed
qed

lemma appends_try_except:
  assumes "appends_calls act" and "\<And>e. appends_calls (handler e)"
  shows "appends_calls (try_except act handler)"
  unfolding appends_calls_def
proof
  fix st
  obtain r st1 where a: "act st = (r, st1)" by (cases "act st")
  from assms(1) a obtain cs1 where c1: "calls st1 = calls st @ cs1"
    by (auto simp: appends_calls_def dest!: spec [of _ st])
  show "\<exists>cs. calls (snd (try_except act handler st)) = calls st @ cs"
  proof (cases r)
    case (Inr x)
    then show ?thesis by (simp add: try_except_def a c1)
  next
    case (Inl e)
    from assms(2) [of e] obtain cs2 where "calls (snd (handler e st1)) = calls st1 @ cs2"
      by (auto simp: appends_calls_def dest!: spec [of _ st1])
    then show ?thesis by (simp add: try_except_def a Inl c1)
  qed
qed

lemma appends_if:
  "appends_calls a \<Longrightarrow> appends_calls b \<Longrightarrow> appends_calls (if c then a else b)"
  by simp

lemma appends_case_option:
  "appends_calls a \<Longrightarrow> (\<And>x. appends_calls (f x)) \<Longrightarrow>
     appends_calls (case v of None \<Rightarrow> a | Some x \<Rightarrow> f x)"
  by (cases v) simp_all

lemma appends_find_element: "appends_calls (find_element_within_iframes w sel)"
  unfolding appends_calls_def
proof
  fix st
  from find_element_run [of w sel st] obtain cs where
    "find_element_within_iframes w sel st = (resolve w (live st) sel, st\<lparr>calls := calls st @ cs\<rparr>)"
    by blast
  then have "calls (snd (find_element_within_iframes w sel st)) = calls st @ cs"
    by simp
  then show "\<exists>cs. calls (snd (find_element_within_iframes w sel st)) = calls st @ cs"
    by (rule exI)
qed

lemma appends_script_click: "appends_calls (perform_javascript_click w sel)"
  by (simp add: appends_calls_def perform_javascript_click_run)

lemma appends_select_done:
  "appends_calls (\<lambda>st. (Inr out, st\<lparr>live := select_reaction w (live st) el\<rparr>))"
  by (simp add: appends_calls_def)

lemma do_click_appends: "appends_calls (do_click w sel wait)"
  unfolding do_click_def do_click_body_def
  by (intro appends_bind appends_try_except appends_ret appends_raise appends_external
      appends_logged appends_find_element appends_if appends_case_option
      appends_script_click appends_select_done)

lemma detect_dom_changes_last:
  "detect_dom_changes v ds = (if ds = [] then v else Some (last ds))"
  unfolding detect_dom_changes_def by (induction ds arbitrary: v) auto

lemma sublist_not_yet:
  "sublist ''is not yet executed and needs further interaction'' (changes_message summary changes sel)"
proof -
  have "changes_message summary changes sel =
      (''Success: '' @ py_str summary @ ''.'' @ [CHR 0x0A] @
       '' As a consequence of this action, new elements have appeared in view: '' @ changes @
       ''. This means that the action to click '' @ sel @ '' '')
      @ ''is not yet executed and needs further interaction''
      @ ''. Get all_fields DOM to complete the interaction.''"
    by (simp add: changes_message_def)
  then show ?thesis
    using sublist_appendI by metis
qed

lemma sublist_changes: "sublist changes (changes_message summary changes sel)"
proof -
  have "changes_message summary changes sel =
      (''Success: '' @ py_str summary @ ''.'' @ [CHR 0x0A] @
       '' As a consequence of this action, new elements have appeared in view: '') @ changes @
      (''. This means that the action to click '' @ sel @
      '' is not yet executed and needs further interaction. Get all_fields DOM to complete the interaction.'')"
    by (simp add: changes_message_def)
  then show ?thesis
    using sublist_appendI by metis
qed

lemma click_run:
  "\<exists>before.
     click w (Some pg) selector wait =
       (Inr (let deliveries = mutations_during_click w @ mutations_during_settle w;
                 result = do_click_result w pg selector
             in if deliveries \<noteq> [] \<and> last deliveries \<noteq> []
                then changes_message (summary_message result) (last deliveries) selector
                else detailed_message result),
        [AddEvent ''interaction'' ''click'', GetCurrentPage, TakeScreenshots ''click_start'',
         HighlightElement selector, Subscribe] @ before @
        [Sleep (1 / 2), Unsubscribe, TakeScreenshots ''click_end'',
         NotifyUser (summary_message (do_click_result w pg selector))])"
proof -
  let ?st0 = "\<lparr>live = pg, calls = [AddEvent ''interaction'' ''click'', GetCurrentPage,
                TakeScreenshots ''click_start'', HighlightElement selector, Subscribe]\<rparr>"
  from do_click_run [of w selector wait ?st0] obtain st' where
    run: "do_click w selector wait ?st0 = (Inr (do_click_result w pg selector), st')"
    by auto
  from do_click_appends [of w selector wait] obtain cs where "calls (snd (do_click w selector wait ?st0)) = calls ?st0 @ cs"
    unfolding appends_calls_def by blast
  then have log: "calls st' = calls ?st0 @ cs"
    by (simp add: run)
  show ?thesis
    by (rule exI [of _ cs]) (simp add: click_def run Let_def log detect_dom_changes_last)
qed

text \<open>
  Claim C3, as amended. The listener of \<^verbatim>\<open>click\<close> is subscribed before \<^verbatim>\<open>do_click\<close> is
  called and unsubscribed after the sleep of half a second that follows it. If the last
  change description delivered in that time (while \<^verbatim>\<open>do_click\<close> ran or during the sleep) is
  not empty, \<^verbatim>\<open>click\<close> returns the message that says the action is not yet executed, with
  that description in it; if none was delivered, or the last one is the empty string,
  \<^verbatim>\<open>click\<close> returns the detailed message of \<^verbatim>\<open>do_click\<close> unchanged.
\<close>

theorem click_reports_changes:
  assumes "fst (do_click w selector wait st) = Inr result" and "live st = pg"
  shows "fst (click w (Some pg) selector wait) =
           Inr (let deliveries = mutations_during_click w @ mutations_during_settle w in
                if deliveries \<noteq> [] \<and> last deliveries \<noteq> []
                then changes_message (summary_message result) (last deliveries) selector
                else detailed_message result)
     \<and> sublist ''is not yet executed and needs further interaction''
          (changes_message (summary_message result) changes selector)
     \<and> sublist changes (changes_message (summary_message result) changes selector)
     \<and> (\<exists>before. snd (click w (Some pg) selector wait)
           = [AddEvent ''interaction'' ''click'', GetCurrentPage, TakeScreenshots ''click_start'',
              HighlightElement selector, Subscribe] @ before @
             [Sleep (1 / 2), Unsubscribe, TakeScreenshots ''click_end'',
              NotifyUser (summary_message result)])"
proof -
  from assms have res: "do_click_result w pg selector = result"
    by (simp add: do_click_fst)
  from click_run [of w pg selector wait] obtain before where
    c: "click w (Some pg) selector wait =
       (Inr (let deliveries = mutations_during_click w @ mutations_during_settle w
             in if deliveries \<noteq> [] \<and> last deliveries \<noteq> []
                then changes_message (summary_message result) (last deliveries) selector
                else detailed_message result),
        [AddEvent ''interaction'' ''click'', GetCurrentPage, TakeScreenshots ''click_start'',
         HighlightElement selector, Subscribe] @ before @
        [Sleep (1 / 2), Unsubscribe, TakeScreenshots ''click_end'',
         NotifyUser (summary_message result)])"
    by (auto simp: res Let_def)
  have 1: "fst (click w (Some pg) selector wait) =
           Inr (let deliveries = mutations_during_click w @ mutations_during_settle w in
                if deliveries \<noteq> [] \<and> last deliveries \<noteq> []
                then changes_message (summary_message result) (last deliveries) selector
                else detailed_message result)"
    by (simp add: c)
  have 2: "\<exists>before. snd (click w (Some pg) selector wait)
           = [AddEvent ''interaction'' ''click'', GetCurrentPage, TakeScreenshots ''click_start'',
              HighlightElement selector, Subscribe] @ before @
             [Sleep (1 / 2), Unsubscribe, TakeScreenshots ''click_end'',
              NotifyUser (summary_message result)]"
    by (rule exI [of _ before]) (simp add: c)
  from 1 2 sublist_not_yet sublist_changes show ?thesis by blast
qed

lemma quiet_button_result:
  assumes "matches w = type_selector" and "pw_query w = regular_dom_query type_selector"
    and "fault w = (\<lambda>c. None)" and "outer_html w = outer_html quiet_world"
    and "click_reaction w = (\<lambda>pg el. (pg, el))"
  shows "do_click_result w (page_of [button]) ''button'' =
     \<lparr>summary_message = Some ''Executed JavaScript Click on element with selector: button'',
      detailed_message = ''Executed JavaScript Click on element with selector: button The clicked element's outer HTML is: <button>.''\<rparr>"
proof -
  have r: "resolve w (page_of [button]) ''button'' = Inr (Some button)"
    by (simp add: resolve_def assms page_of_def button_page_facts)
  have j: "js_click_script w (page_of [button]) ''button''
     = (Inr ''Executed JavaScript Click on element with selector: button'', page_of [button])"
    by (simp add: js_click_script_def assms page_of_def button_page_facts)
      (simp add: button_def lower_tags getAttribute_def executed_click_message_def)
  have s: "script_click_result w (page_of [button]) ''button''
      = Some ''Executed JavaScript Click on element with selector: button''"
    by (simp add: script_click_result_def j assms)
  show ?thesis
    by (simp add: do_click_result_def r s click_outcome_def assms quiet_fields)
      (simp add: button_def lower_tags)
qed

theorem click_reports_changes_witness:
  "fst (click (quiet_world\<lparr>mutations_during_settle := [''menu'']\<rparr>) (Some (page_of [button])) ''button'' 0)
     = Inr (''Success: Executed JavaScript Click on element with selector: button.'' @ [CHR 0x0A] @
            '' As a consequence of this action, new elements have appeared in view: menu. This means that the action to click button is not yet executed and needs further interaction. Get all_fields DOM to complete the interaction.'')
   \<and> fst (click quiet_world (Some (page_of [button])) ''button'' 0)
     = Inr ''Executed JavaScript Click on element with selector: button The clicked element's outer HTML is: <button>.''"
proof -
  let ?w = "quiet_world\<lparr>mutations_during_settle := [''menu'']\<rparr>"
  let ?st = "fresh (page_of [button])"
  let ?out = "\<lparr>summary_message = Some ''Executed JavaScript Click on element with selector: button'',
      detailed_message = ''Executed JavaScript Click on element with selector: button The clicked element's outer HTML is: <button>.''\<rparr>"
  have l: "live ?st = page_of [button]" by (simp add: fresh_def)
  have a: "fst (do_click ?w ''button'' 0 ?st) = Inr ?out"
    using quiet_button_result [of ?w] by (simp add: do_click_fst l quiet_world_def)
  have b: "fst (do_click quiet_world ''button'' 0 ?st) = Inr ?out"
    using quiet_button_result [of quiet_world] by (simp add: do_click_fst l quiet_world_def)
  from click_reports_changes [OF a l] click_reports_changes [OF b l]
  show ?thesis
    by (simp add: quiet_fields changes_message_def)
qed

text \<open>The claim as first stated fails when the description delivered during the settle sleep
  is the empty string: Python takes it for false, and \<^verbatim>\<open>click\<close> returns the detailed message.\<close>

theorem empty_change_description_is_ignored:
  "fst (click (quiet_world\<lparr>mutations_during_settle := [[]]\<rparr>) (Some (page_of [button])) ''button'' 0)
     = Inr ''Executed JavaScript Click on element with selector: button The clicked element's outer HTML is: <button>.''"
proof -
  let ?w = "quiet_world\<lparr>mutations_during_settle := [[]]\<rparr>"
  have "do_click_result ?w (page_of [button]) ''button'' =
     \<lparr>summary_message = Some ''Executed JavaScript Click on element with selector: button'',
      detailed_message = ''Executed JavaScript Click on element with selector: button The clicked element's outer HTML is: <button>.''\<rparr>"
    using quiet_button_result [of ?w] by (simp add: quiet_world_def)
  with click_run [of ?w "page_of [button]" "''button''" 0] show ?thesis
    by (auto simp: quiet_fields)
qed

text \<open>The listener is subscribed while \<^verbatim>\<open>do_click\<close> runs: a description delivered then, with
  none delivered during the settle sleep, is reported too.\<close>

lemma changes_during_do_click_are_reported:
  "fst (click (quiet_world\<lparr>mutations_during_click := [''menu'']\<rparr>) (Some (page_of [button])) ''button'' 0)
     = Inr (''Success: Executed JavaScript Click on element with selector: button.'' @ [CHR 0x0A] @
            '' As a consequence of this action, new elements have appeared in view: menu. This means that the action to click button is not yet executed and needs further interaction. Get all_fields DOM to complete the interaction.'')"
proof -
  let ?w = "quiet_world\<lparr>mutations_during_click := [''menu'']\<rparr>"
  have "do_click_result ?w (page_of [button]) ''button'' =
     \<lparr>summary_message = Some ''Executed JavaScript Click on element with selector: button'',
      detailed_message = ''Executed JavaScript Click on element with selector: button The clicked element's outer HTML is: <button>.''\<rparr>"
    using quiet_button_result [of ?w] by (simp add: quiet_world_def)
  with click_run [of ?w "page_of [button]" "''button''" 0] show ?thesis
    by (auto simp: quiet_fields changes_message_def)
qed

end
